theory Spec2Isabelle
  imports Complex_Main "HOL-Library.Word"
begin

section \<open>JavaScript values\<close>

text \<open>
  A JavaScript string is the sequence of its UTF-16 code units, so \<open>s.length\<close> is
  \<^term>\<open>length s\<close>. ASCII literals are written with \<open>js\<close>; the few non-ASCII symbols
  the program mentions are given by their code unit.
\<close>

type_synonym cu = "16 word"
type_synonym jstring = "cu list"

definition js :: "string \<Rightarrow> jstring" where
  "js s = map of_char s"

text \<open>
  A JavaScript number is a finite value, \<open>NaN\<close> or an infinity. Finite values are exact
  reals here: rounding to the nearest double and the sign of zero are not modelled, and
  no property below depends on them.
\<close>

datatype jsnum = Fin real | NaN | PosInf | NegInf

fun js_mul :: "jsnum \<Rightarrow> jsnum \<Rightarrow> jsnum" where
  "js_mul NaN y = NaN"
| "js_mul x NaN = NaN"
| "js_mul (Fin a) (Fin b) = Fin (a * b)"
| "js_mul (Fin a) PosInf = (if a = 0 then NaN else if 0 < a then PosInf else NegInf)"
| "js_mul (Fin a) NegInf = (if a = 0 then NaN else if 0 < a then NegInf else PosInf)"
| "js_mul PosInf (Fin b) = (if b = 0 then NaN else if 0 < b then PosInf else NegInf)"
| "js_mul NegInf (Fin b) = (if b = 0 then NaN else if 0 < b then NegInf else PosInf)"
| "js_mul PosInf PosInf = PosInf"
| "js_mul PosInf NegInf = NegInf"
| "js_mul NegInf PosInf = NegInf"
| "js_mul NegInf NegInf = PosInf"

text \<open>\<open>a ?? b\<close>: the left operand unless it is \<open>null\<close> or \<open>undefined\<close> (\<open>None\<close>).\<close>

fun nullish :: "'a option \<Rightarrow> 'a \<Rightarrow> 'a" where
  "nullish (Some a) b = a"
| "nullish None b = b"

text \<open>
  \<open>a || b\<close> on an optional string: the left operand unless it is falsy, that is
  \<open>null\<close>, \<open>undefined\<close> or the empty string.
\<close>

fun truthy :: "jstring option \<Rightarrow> bool" where
  "truthy None = False"
| "truthy (Some s) = (s \<noteq> [])"

text \<open>\<open>n.toString()\<close> for an array index: its decimal digits.\<close>

definition digitChar :: "nat \<Rightarrow> cu" where
  "digitChar d = of_nat (48 + d)"

function natToString :: "nat \<Rightarrow> jstring" where
  "natToString n =
     (if n < 10 then [digitChar n] else natToString (n div 10) @ [digitChar (n mod 10)])"
  by pat_completeness auto
termination
  by (relation "measure (\<lambda>n. n)") auto

declare natToString.simps [simp del]

text \<open>\<open>s.padStart(n, '0')\<close>.\<close>

definition padStart0 :: "nat \<Rightarrow> jstring \<Rightarrow> jstring" where
  "padStart0 n s = replicate (n - length s) (of_char CHR ''0'') @ s"


section \<open>Construction items (components/domain/data/types.ts)\<close>

text \<open>
  \<open>ConstructionItemInput\<close> is \<open>Omit<ConstructionItem, "subtotal">\<close>; the item adds the
  subtotal. Optional fields are \<open>None\<close> when absent.
\<close>

record ConstructionItemInput =
  item_id :: jstring
  descripcion :: jstring
  costoUnitario :: jsnum
  cantidad :: jsnum
  unidad :: jstring
  imagenUrl :: "jstring option"
  categoria :: "jstring option"
  notas :: "jstring option"

record ConstructionItem = ConstructionItemInput +
  subtotal :: jsnum

definition createConstructionItem :: "ConstructionItemInput \<Rightarrow> ConstructionItem" where
  "createConstructionItem input =
     ConstructionItemInput.extend input
       (ConstructionItem.fields (js_mul (costoUnitario input) (cantidad input)))"

text \<open>\<open>ColumnKey = keyof ConstructionItem\<close>.\<close>

datatype ColumnKey =
  K_id | K_descripcion | K_costoUnitario | K_cantidad | K_unidad | K_subtotal
  | K_imagenUrl | K_categoria | K_notas

definition DEFAULT_VISIBLE_COLUMNS :: "ColumnKey list" where
  "DEFAULT_VISIBLE_COLUMNS =
     [K_id, K_descripcion, K_costoUnitario, K_cantidad, K_unidad, K_subtotal]"

datatype ViewMode = Table | Grid

datatype TableFilterOperator =
  Op_equals | Op_contains | Op_startsWith | Op_endsWith | Op_gt | Op_gte | Op_lt | Op_lte
  | Op_between

datatype ConditionValue = StrValue jstring | NumValue jsnum

record FilterCondition =
  column :: ColumnKey
  cond_operator :: TableFilterOperator
  cond_value :: ConditionValue
  secondValue :: "jsnum option"

record TableFilters =
  globalSearch :: jstring
  conditions :: "FilterCondition list"

definition DEFAULT_FILTERS :: TableFilters where
  "DEFAULT_FILTERS = \<lparr>globalSearch = [], conditions = []\<rparr>"

text \<open>TanStack Table's \<open>SortingState\<close> and \<open>VisibilityState\<close>.\<close>

record ColumnSort =
  sort_id :: jstring
  desc :: bool

type_synonym SortingState = "ColumnSort list"
type_synonym VisibilityState = "jstring \<rightharpoonup> bool"


section \<open>The table store (lib/stores/tableStore.ts)\<close>

text \<open>
  The state of the store is \<open>TableState\<close>. Its fields are declared in two groups: the
  five fields that \<open>partialize\<close> hands to the persistence middleware, and \<open>filters\<close>.
  The row selection and the focused row are local state of the \<open>DataTable\<close> component,
  not fields of the store. A column width is a number; in a state loaded from storage it
  can also be \<open>null\<close> (\<open>None\<close>), see \<open>storedObject\<close> below.
\<close>

record PersistedState =
  viewMode :: ViewMode
  visibleColumns :: "ColumnKey list"
  sorting :: SortingState
  columnVisibility :: VisibilityState
  columnSizing :: "jstring \<rightharpoonup> jsnum option"

record TableState = PersistedState +
  filters :: TableFilters

definition initialState :: TableState where
  "initialState =
     \<lparr>viewMode = Table, visibleColumns = DEFAULT_VISIBLE_COLUMNS, sorting = [],
      columnVisibility = Map.empty, columnSizing = Map.empty, filters = DEFAULT_FILTERS\<rparr>"

definition setViewMode :: "ViewMode \<Rightarrow> TableState \<Rightarrow> TableState" where
  "setViewMode mode s = s\<lparr>viewMode := mode\<rparr>"

definition setFilters :: "TableFilters \<Rightarrow> TableState \<Rightarrow> TableState" where
  "setFilters f s = s\<lparr>filters := f\<rparr>"

definition setGlobalSearch :: "jstring \<Rightarrow> TableState \<Rightarrow> TableState" where
  "setGlobalSearch search s = s\<lparr>filters := (filters s)\<lparr>globalSearch := search\<rparr>\<rparr>"

definition addFilterCondition :: "FilterCondition \<Rightarrow> TableState \<Rightarrow> TableState" where
  "addFilterCondition condition s =
     s\<lparr>filters := (filters s)\<lparr>conditions := conditions (filters s) @ [condition]\<rparr>\<rparr>"

text \<open>\<open>conditions.filter((_, i) => i !== index)\<close>; the index is any integer.\<close>

definition removeFilterCondition :: "int \<Rightarrow> TableState \<Rightarrow> TableState" where
  "removeFilterCondition idx s =
     s\<lparr>filters := (filters s)\<lparr>conditions :=
        map snd (filter (\<lambda>(i, c). int i \<noteq> idx)
                   (zip [0 ..< length (conditions (filters s))] (conditions (filters s))))\<rparr>\<rparr>"

definition clearFilters :: "TableState \<Rightarrow> TableState" where
  "clearFilters s = s\<lparr>filters := DEFAULT_FILTERS\<rparr>"

definition setVisibleColumns :: "ColumnKey list \<Rightarrow> TableState \<Rightarrow> TableState" where
  "setVisibleColumns columns s = s\<lparr>visibleColumns := columns\<rparr>"

definition toggleColumn :: "ColumnKey \<Rightarrow> TableState \<Rightarrow> TableState" where
  "toggleColumn col s =
     (let isVisible = (col \<in> set (visibleColumns s)) in
      if isVisible then
        (if length (visibleColumns s) > 1
         then s\<lparr>visibleColumns := filter (\<lambda>c. c \<noteq> col) (visibleColumns s)\<rparr>
         else s)
      else s\<lparr>visibleColumns := visibleColumns s @ [col]\<rparr>)"

definition setSorting :: "SortingState \<Rightarrow> TableState \<Rightarrow> TableState" where
  "setSorting srt s = s\<lparr>sorting := srt\<rparr>"

definition setColumnVisibility :: "VisibilityState \<Rightarrow> TableState \<Rightarrow> TableState" where
  "setColumnVisibility visibility s = s\<lparr>columnVisibility := visibility\<rparr>"

definition setColumnSizing :: "(jstring \<rightharpoonup> jsnum option) \<Rightarrow> TableState \<Rightarrow> TableState" where
  "setColumnSizing sizing s = s\<lparr>columnSizing := sizing\<rparr>"

definition reset :: "TableState \<Rightarrow> TableState" where
  "reset s = initialState"

text \<open>The \<open>partialize\<close> option of the persistence middleware.\<close>

definition partialize :: "TableState \<Rightarrow> PersistedState" where
  "partialize state =
     \<lparr>viewMode = viewMode state,
      visibleColumns = visibleColumns state,
      sorting = sorting state,
      columnVisibility = columnVisibility state,
      columnSizing = columnSizing state\<rparr>"

text \<open>
  The storage is \<open>createJSONStorage(() => localStorage)\<close>: it keeps the JSON text of
  the partialized state and hands back what parsing that text gives. Strings, booleans
  and finite numbers come back as they were; \<open>NaN\<close> and the infinities are written as
  \<open>null\<close> and come back as \<open>null\<close>.
\<close>

fun jsonNumber :: "jsnum option \<Rightarrow> jsnum option" where
  "jsonNumber (Some (Fin x)) = Some (Fin x)"
| "jsonNumber (Some NaN) = None"
| "jsonNumber (Some PosInf) = None"
| "jsonNumber (Some NegInf) = None"
| "jsonNumber None = None"

definition storedObject :: "TableState \<Rightarrow> PersistedState" where
  "storedObject state =
     (partialize state)\<lparr>columnSizing :=
        (\<lambda>k. map_option jsonNumber (columnSizing (partialize state) k))\<rparr>"

text \<open>
  What a new session starts from. The store is created from \<open>initialState\<close>; the
  middleware (zustand's \<open>persist\<close>, with its default shallow merge, no \<open>merge\<close> option
  being given) then lays the object read from the storage, when there is one, over it.
  The argument is that object, whatever it is.
\<close>

definition rehydrate :: "PersistedState option \<Rightarrow> TableState" where
  "rehydrate stored =
     (case stored of
        None \<Rightarrow> initialState
      | Some p \<Rightarrow>
          initialState\<lparr>viewMode := viewMode p,
                        visibleColumns := visibleColumns p,
                        sorting := sorting p,
                        columnVisibility := columnVisibility p,
                        columnSizing := columnSizing p\<rparr>)"

text \<open>A run of \<open>toggleColumn\<close> calls, in order.\<close>

fun toggleColumns :: "ColumnKey list \<Rightarrow> TableState \<Rightarrow> TableState" where
  "toggleColumns [] s = s"
| "toggleColumns (c # cs) s = toggleColumns cs (toggleColumn c s)"


section \<open>Virtualization (components/domain/data/DataTable.tsx)\<close>

text \<open>
  The component keeps the focused row and the selected rows as local state,
  \<open>useState<number>(-1)\<close> and \<open>useState<Set<string>>(new Set())\<close>: every mount of
  the table starts from these values.
\<close>

record DataTableState =
  focusedRowIndex :: int
  selectedRowIds :: "jstring set"

definition initialDataTableState :: DataTableState where
  "initialDataTableState = \<lparr>focusedRowIndex = - 1, selectedRowIds = {}\<rparr>"

text \<open>
  The component computes the two paddings from the virtual rows and the total size that
  the virtualizer hands it. Pixel quantities are reals. An item of
  \<open>getVirtualItems()\<close>:
\<close>

record VirtualItem =
  index :: nat
  start :: real
  end_v :: real
  size_v :: real

text \<open>
  \<open>virtualRows.length > 0 ? virtualRows[0]?.start ?? 0 : 0\<close> and
  \<open>virtualRows.length > 0 ? totalSize - (virtualRows[virtualRows.length - 1]?.end ?? 0) : 0\<close>.
\<close>

definition paddingTop :: "VirtualItem list \<Rightarrow> real" where
  "paddingTop virtualRows = (if length virtualRows > 0 then start (hd virtualRows) else 0)"

definition paddingBottom :: "VirtualItem list \<Rightarrow> real \<Rightarrow> real" where
  "paddingBottom virtualRows totalSize =
     (if length virtualRows > 0 then totalSize - end_v (last virtualRows) else 0)"

text \<open>The height of the rendered rows: each is given \<open>height: virtualRow.size\<close>.\<close>

definition renderedHeight :: "VirtualItem list \<Rightarrow> real" where
  "renderedHeight virtualRows = sum_list (map size_v virtualRows)"

text \<open>
  Modelled from the spec: the rows that are at least partly visible. The window
  computation is delegated to \<open>useVirtualizer\<close> of TanStack Virtual, whose code is not
  part of the repository; the spec gives it as \<open>computeWindow(totalCount, scrollOffset,
  viewportHeight, rowHeight, overscan)\<close>. Row \<open>i\<close> occupies the pixels from
  \<open>i * rowHeight\<close> to \<open>(i + 1) * rowHeight\<close>, the viewport those from \<open>scrollOffset\<close>
  to \<open>scrollOffset + viewportHeight\<close>; the result is the first and the last row that
  overlap it, or \<open>None\<close> when no row does. A viewport without height (the scroll element
  is not yet measured) shows no row.
\<close>

definition visibleRange :: "nat \<Rightarrow> real \<Rightarrow> real \<Rightarrow> real \<Rightarrow> (nat \<times> nat) option" where
  "visibleRange totalCount scrollOffset viewportHeight rowHeight =
     (if rowHeight \<le> 0 \<or> viewportHeight \<le> 0 then None
      else (let f = nat \<lfloor>scrollOffset / rowHeight\<rfloor>;
                e = min totalCount (nat \<lceil>(scrollOffset + viewportHeight) / rowHeight\<rceil>)
            in if f < e then Some (f, e - 1) else None))"

text \<open>
  Modelled from the spec: the window of \<open>computeWindow\<close> (code not in the repository, see
  \<open>visibleRange\<close>), as its first and last index: the visible rows, extended by
  \<open>overscan\<close> rows on each side and clamped to \<open>[0, totalCount - 1]\<close>. There is no window
  when no row is visible.
\<close>

definition computeWindow ::
  "nat \<Rightarrow> real \<Rightarrow> real \<Rightarrow> real \<Rightarrow> nat \<Rightarrow> (nat \<times> nat) option" where
  "computeWindow totalCount scrollOffset viewportHeight rowHeight overscan =
     (case visibleRange totalCount scrollOffset viewportHeight rowHeight of
        None \<Rightarrow> None
      | Some (f, l) \<Rightarrow> Some (f - overscan, min (totalCount - 1) (l + overscan)))"

text \<open>
  Modelled from the spec: the geometry of a virtual row (code not in the repository, see
  \<open>visibleRange\<close>). The row height is one constant per table.
\<close>

definition itemAt :: "real \<Rightarrow> nat \<Rightarrow> VirtualItem" where
  "itemAt rowHeight i =
     \<lparr>index = i, start = real i * rowHeight, end_v = real (i + 1) * rowHeight,
      size_v = rowHeight\<rparr>"

text \<open>
  Modelled from the spec: \<open>getVirtualItems()\<close> and \<open>getTotalSize()\<close> of the
  virtualizer (code not in the repository, see \<open>visibleRange\<close>): the rows of the window, and
  the height of all rows.
\<close>

definition getVirtualItems ::
  "nat \<Rightarrow> real \<Rightarrow> real \<Rightarrow> real \<Rightarrow> nat \<Rightarrow> VirtualItem list" where
  "getVirtualItems totalCount scrollOffset viewportHeight rowHeight overscan =
     (case computeWindow totalCount scrollOffset viewportHeight rowHeight overscan of
        None \<Rightarrow> []
      | Some (f, l) \<Rightarrow> map (itemAt rowHeight) [f ..< Suc l])"

definition getTotalSize :: "nat \<Rightarrow> real \<Rightarrow> real" where
  "getTotalSize totalCount rowHeight = real totalCount * rowHeight"


section \<open>Mapping dataset rows (lib/mappers/workitem-mapper.ts)\<close>

text \<open>
  Of the 85 columns of \<open>DDCWorkItem\<close>, the ones \<open>mapToConstructionItem\<close> reads. The
  mapper guards every one of them against \<open>null\<close>/\<open>undefined\<close>, so each is optional.
\<close>

record DDCWorkItem =
  rate_code :: "jstring option"
  rate_original_name :: "jstring option"
  rate_unit :: "jstring option"
  resource_name :: "jstring option"
  resource_unit :: "jstring option"
  category_type :: "jstring option"
  department_name :: "jstring option"
  resource_quantity :: "jsnum option"
  resource_price_per_unit :: "jsnum option"
  resource_cost :: "jsnum option"
  price_est_median :: "jsnum option"
  price_est_mean :: "jsnum option"

text \<open>\<open>a || d\<close> where \<open>d\<close> is a string.\<close>

fun orString :: "jstring option \<Rightarrow> jstring \<Rightarrow> jstring" where
  "orString None d = d"
| "orString (Some s) d = (if s = [] then d else s)"

definition mapToConstructionItem :: "DDCWorkItem \<Rightarrow> nat \<Rightarrow> ConstructionItem" where
  "mapToConstructionItem row idx =
     (let unitPrice =
            nullish (resource_price_per_unit row)
              (nullish (price_est_median row) (nullish (price_est_mean row) (Fin 0)));
          quantity = nullish (resource_quantity row) (Fin 1);
          subtotal' = nullish (resource_cost row) (js_mul unitPrice quantity)
      in \<lparr>item_id =
            orString (rate_code row) (js ''ITEM-'' @ padStart0 5 (natToString idx)),
          descripcion =
            orString (rate_original_name row)
              (orString (resource_name row) (js ''Unknown Item'')),
          costoUnitario = unitPrice,
          cantidad = quantity,
          unidad =
            orString (rate_unit row) (orString (resource_unit row) (js ''unit'')),
          imagenUrl = None,
          categoria =
            (if truthy (category_type row) then category_type row
             else if truthy (department_name row) then department_name row
             else None),
          notas = None,
          subtotal = subtotal'\<rparr>)"


section \<open>String primitives\<close>

text \<open>
  \<open>String.prototype.toLowerCase\<close> on the alphabet the model covers: ASCII, Latin-1, and
  the three code units outside Latin-1 whose lower case lies in it or contains an ASCII
  letter (KELVIN SIGN, ANGSTROM SIGN, I WITH DOT ABOVE). Any other code unit is left as
  it is; strings with further cased letters (Greek, Cyrillic, ...) are outside the model.
\<close>

definition lowerCU :: "cu \<Rightarrow> cu list" where
  "lowerCU c =
     (if 0x41 \<le> c \<and> c \<le> 0x5A then [c + 0x20]
      else if 0xC0 \<le> c \<and> c \<le> 0xDE \<and> c \<noteq> 0xD7 then [c + 0x20]
      else if c = 0x212A then [0x6B]
      else if c = 0x212B then [0xE5]
      else if c = 0x0130 then [0x69, 0x0307]
      else [c])"

definition toLowerCase :: "jstring \<Rightarrow> jstring" where
  "toLowerCase s = concat (map lowerCU s)"

text \<open>\<open>s.includes(p)\<close>: \<open>p\<close> occurs in \<open>s\<close> as a contiguous run.\<close>

fun startsWith :: "jstring \<Rightarrow> jstring \<Rightarrow> bool" where
  "startsWith s [] = True"
| "startsWith [] (p # ps) = False"
| "startsWith (c # cs) (p # ps) = (c = p \<and> startsWith cs ps)"

fun includes_js :: "jstring \<Rightarrow> jstring \<Rightarrow> bool" where
  "includes_js [] p = (p = [])"
| "includes_js (c # cs) p = (startsWith (c # cs) p \<or> includes_js cs p)"

text \<open>
  White space as \<open>trim\<close> and the regular-expression class \<open>\s\<close> both define it:
  the WhiteSpace and LineTerminator code points.
\<close>

definition isSpace :: "cu \<Rightarrow> bool" where
  "isSpace c =
     ((0x09 \<le> c \<and> c \<le> 0x0D) \<or> c = 0x20 \<or> c = 0xA0 \<or> c = 0x1680 \<or>
      (0x2000 \<le> c \<and> c \<le> 0x200A) \<or> c = 0x2028 \<or> c = 0x2029 \<or> c = 0x202F \<or>
      c = 0x205F \<or> c = 0x3000 \<or> c = 0xFEFF)"

definition trim :: "jstring \<Rightarrow> jstring" where
  "trim s = rev (dropWhile isSpace (rev (dropWhile isSpace s)))"

definition isDigit :: "cu \<Rightarrow> bool" where
  "isDigit c = (0x30 \<le> c \<and> c \<le> 0x39)"

definition intToString :: "int \<Rightarrow> jstring" where
  "intToString i =
     (if i < 0 then of_char CHR ''-'' # natToString (nat (- i)) else natToString (nat i))"


section \<open>The query pipeline (lib/db/parquet-reader.ts)\<close>

text \<open>
  A cell of a loaded row has the type \<open>unknown\<close>; the model covers the values the
  declared column types allow: a string, a number, \<open>null\<close>, or \<open>undefined\<close> for a
  column the row does not have. A row is \<open>Record<string, unknown>\<close>.
\<close>

datatype cell = Undefined | Null | Num jsnum | Str jstring

type_synonym row = "jstring \<Rightarrow> cell"

text \<open>
  Built-ins whose result depends on the engine or the locale are parameters:
  \<open>String(n)\<close> and \<open>Number(s)\<close> for a number \<open>n\<close> and a string \<open>s\<close>,
  \<open>a.localeCompare(b)\<close>, and the order in which \<open>Array.prototype.sort\<close> leaves an
  array whose comparator is not consistent (see \<open>sort_js\<close>).
\<close>

record Host =
  numberToString :: "jsnum \<Rightarrow> jstring"
  stringToNumber :: "jstring \<Rightarrow> jsnum"
  localeCompare :: "jstring \<Rightarrow> jstring \<Rightarrow> int"
  engineSort :: "(row \<Rightarrow> row \<Rightarrow> jsnum) \<Rightarrow> row list \<Rightarrow> row list"

fun safeString :: "Host \<Rightarrow> cell \<Rightarrow> jstring" where
  "safeString H Null = []"
| "safeString H Undefined = []"
| "safeString H (Str s) = s"
| "safeString H (Num n) = numberToString H n"

fun toNumber :: "Host \<Rightarrow> cell \<Rightarrow> jsnum" where
  "toNumber H (Num n) = n"
| "toNumber H (Str s) = stringToNumber H s"
| "toNumber H Null = Fin 0"
| "toNumber H Undefined = NaN"

definition safeNumber :: "Host \<Rightarrow> cell \<Rightarrow> jsnum" where
  "safeNumber H v =
     (if v = Null \<or> v = Undefined then Fin 0
      else (let num = toNumber H v in if num = NaN then Fin 0 else num))"

text \<open>The comparisons \<open>a >= b\<close> and \<open>a <= b\<close> of two numbers; false when either is \<open>NaN\<close>.\<close>

fun js_le :: "jsnum \<Rightarrow> jsnum \<Rightarrow> bool" where
  "js_le NaN y = False"
| "js_le x NaN = False"
| "js_le (Fin a) (Fin b) = (a \<le> b)"
| "js_le NegInf y = True"
| "js_le x PosInf = True"
| "js_le PosInf y = False"
| "js_le x NegInf = False"

definition js_ge :: "jsnum \<Rightarrow> jsnum \<Rightarrow> bool" where
  "js_ge a b = js_le b a"

text \<open>The difference \<open>a - b\<close>.\<close>

fun js_sub :: "jsnum \<Rightarrow> jsnum \<Rightarrow> jsnum" where
  "js_sub NaN y = NaN"
| "js_sub x NaN = NaN"
| "js_sub (Fin a) (Fin b) = Fin (a - b)"
| "js_sub PosInf PosInf = NaN"
| "js_sub NegInf NegInf = NaN"
| "js_sub PosInf y = PosInf"
| "js_sub NegInf y = NegInf"
| "js_sub x PosInf = NegInf"
| "js_sub x NegInf = PosInf"

text \<open>The sign of a comparator result; \<open>NaN\<close> has none.\<close>

fun positive :: "jsnum \<Rightarrow> bool" where
  "positive (Fin v) = (0 < v)"
| "positive PosInf = True"
| "positive NegInf = False"
| "positive NaN = False"

fun negative :: "jsnum \<Rightarrow> bool" where
  "negative (Fin v) = (v < 0)"
| "negative PosInf = False"
| "negative NegInf = True"
| "negative NaN = False"

definition isZero :: "jsnum \<Rightarrow> bool" where
  "isZero v = (v = Fin 0)"

text \<open>
  A comparator is a consistent comparison function for the elements of an array, in the
  words of the language definition, when for all elements \<open>a\<close>, \<open>b\<close>, \<open>c\<close>: the result
  for \<open>a\<close> and \<open>b\<close> is not \<open>NaN\<close>; \<open>a\<close> equals \<open>a\<close>; equality is symmetric and
  transitive; less-than is transitive; greater-than is transitive. (Equal, less and
  greater mean a result that is zero, negative and positive.)
\<close>

definition consistentOn :: "('a \<Rightarrow> 'a \<Rightarrow> jsnum) \<Rightarrow> 'a list \<Rightarrow> bool" where
  "consistentOn cmp xs =
     list_all (\<lambda>a. list_all (\<lambda>b. list_all (\<lambda>c.
         cmp a b \<noteq> NaN
         \<and> isZero (cmp a a)
         \<and> (isZero (cmp a b) \<longrightarrow> isZero (cmp b a))
         \<and> (isZero (cmp a b) \<and> isZero (cmp b c) \<longrightarrow> isZero (cmp a c))
         \<and> (negative (cmp a b) \<and> negative (cmp b c) \<longrightarrow> negative (cmp a c))
         \<and> (positive (cmp a b) \<and> positive (cmp b c) \<longrightarrow> positive (cmp a c))) xs) xs) xs"

text \<open>
  The insertion sort: an element moves in front of the sorted rest up to the first
  element it is not greater than.
\<close>

fun sortInsert :: "('a \<Rightarrow> 'a \<Rightarrow> jsnum) \<Rightarrow> 'a \<Rightarrow> 'a list \<Rightarrow> 'a list" where
  "sortInsert cmp x [] = [x]"
| "sortInsert cmp x (y # ys) =
     (if positive (cmp x y) then y # sortInsert cmp x ys else x # y # ys)"

fun insertionSort :: "('a \<Rightarrow> 'a \<Rightarrow> jsnum) \<Rightarrow> 'a list \<Rightarrow> 'a list" where
  "insertionSort cmp [] = []"
| "insertionSort cmp (x # xs) = sortInsert cmp x (insertionSort cmp xs)"

text \<open>
  \<open>Array.prototype.sort(comparefn)\<close> on an array of rows. An array of fewer than two
  elements is returned as it is. For a comparator that is consistent for the elements,
  the language fixes the result: the elements in the comparator's order, those that
  compare equal in the order they had (the sort is stable); that arrangement is unique
  and is the one the insertion sort computes. For a comparator that is not consistent
  the language leaves the order to the engine: the parameter \<open>engineSort\<close>.
\<close>

definition sort_js :: "Host \<Rightarrow> (row \<Rightarrow> row \<Rightarrow> jsnum) \<Rightarrow> row list \<Rightarrow> row list" where
  "sort_js H cmp xs =
     (if length xs < 2 then xs
      else if consistentOn cmp xs then insertionSort cmp xs
      else engineSort H cmp xs)"

text \<open>
  \<open>xs.slice(start, end)\<close> for integer bounds: a negative bound counts from the end,
  and both are clamped to the array.
\<close>

definition sliceIndex :: "nat \<Rightarrow> int \<Rightarrow> nat" where
  "sliceIndex len k = (if k < 0 then nat (max (int len + k) 0) else min (nat k) len)"

definition slice :: "'a list \<Rightarrow> int \<Rightarrow> int \<Rightarrow> 'a list" where
  "slice xs from to =
     (let k = sliceIndex (length xs) from; e = sliceIndex (length xs) to
      in take (e - k) (drop k xs))"

datatype SortOrder = Asc | Desc

text \<open>
  The options of a query; \<open>None\<close> is a field left out, for which the destructuring
  default applies. \<open>page\<close> and \<open>limit\<close> are integers (the API route produces them
  with \<open>parseInt\<close>).
\<close>

record QueryOptions =
  page :: "int option"
  limit :: "int option"
  search :: "jstring option"
  category :: "jstring option"
  sortBy :: "jstring option"
  sortOrder :: "SortOrder option"
  minPrice :: "jsnum option"
  maxPrice :: "jsnum option"

record WorkItem =
  id_w :: jstring
  rate_code_w :: jstring
  rate_original_name_w :: jstring
  rate_name_english_w :: jstring
  rate_unit_w :: jstring
  resource_price_per_unit_w :: jsnum
  category_type_w :: jstring
  subcategory_w :: jstring
  resource_type_w :: jstring
  resource_name_w :: jstring
  resource_unit_w :: jstring
  resource_quantity_w :: jsnum

record QueryResult =
  items :: "WorkItem list"
  total :: nat
  page_r :: int
  totalPages :: jsnum
  limit_r :: int

definition searchFilter :: "Host \<Rightarrow> jstring \<Rightarrow> row \<Rightarrow> bool" where
  "searchFilter H search' r =
     (let searchLower = toLowerCase search';
          rateName = toLowerCase (safeString H (r (js ''rate_original_name'')));
          rateCode = toLowerCase (safeString H (r (js ''rate_code'')));
          resourceName = toLowerCase (safeString H (r (js ''resource_name'')))
      in includes_js rateName searchLower \<or> includes_js rateCode searchLower \<or>
         includes_js resourceName searchLower)"

definition categoryFilter :: "Host \<Rightarrow> jstring \<Rightarrow> row \<Rightarrow> bool" where
  "categoryFilter H category' r = (safeString H (r (js ''category_type'')) = category')"

definition minPriceFilter :: "Host \<Rightarrow> jsnum \<Rightarrow> row \<Rightarrow> bool" where
  "minPriceFilter H minPrice' r =
     js_ge (safeNumber H (r (js ''resource_price_per_unit''))) minPrice'"

definition maxPriceFilter :: "Host \<Rightarrow> jsnum \<Rightarrow> row \<Rightarrow> bool" where
  "maxPriceFilter H maxPrice' r =
     js_le (safeNumber H (r (js ''resource_price_per_unit''))) maxPrice'"

text \<open>The four filtering steps; a step whose option is left out or empty is skipped.\<close>

definition applyFilters :: "Host \<Rightarrow> QueryOptions \<Rightarrow> row list \<Rightarrow> row list" where
  "applyFilters H options rows =
     (let search' = nullish (search options) [];
          category' = nullish (category options) [];
          rows1 = (if search' \<noteq> [] then filter (searchFilter H search') rows else rows);
          rows2 = (if category' \<noteq> [] then filter (categoryFilter H category') rows1 else rows1);
          rows3 = (case minPrice options of
                     Some m \<Rightarrow> filter (minPriceFilter H m) rows2 | None \<Rightarrow> rows2);
          rows4 = (case maxPrice options of
                     Some m \<Rightarrow> filter (maxPriceFilter H m) rows3 | None \<Rightarrow> rows3)
      in rows4)"

definition validSortColumns :: "jstring list" where
  "validSortColumns =
     [js ''rate_code'', js ''rate_original_name'', js ''resource_price_per_unit'',
      js ''category_type'']"

definition safeSort :: "QueryOptions \<Rightarrow> jstring" where
  "safeSort options =
     (let sortBy' = nullish (sortBy options) (js ''rate_code'')
      in if sortBy' \<in> set validSortColumns then sortBy' else js ''rate_code'')"

text \<open>The comparator handed to \<open>sort\<close>.\<close>

definition sortComparator :: "Host \<Rightarrow> jstring \<Rightarrow> SortOrder \<Rightarrow> row \<Rightarrow> row \<Rightarrow> jsnum" where
  "sortComparator H col order' a b =
     (case (a col, b col) of
        (Num aVal, Num bVal) \<Rightarrow>
          (if order' = Asc then js_sub aVal bVal else js_sub bVal aVal)
      | (aVal, bVal) \<Rightarrow>
          (let aStr = safeString H aVal; bStr = safeString H bVal
           in if order' = Asc then Fin (real_of_int (localeCompare H aStr bStr))
              else Fin (real_of_int (localeCompare H bStr aStr))))"

definition sortRows :: "Host \<Rightarrow> QueryOptions \<Rightarrow> row list \<Rightarrow> row list" where
  "sortRows H options rows =
     sort_js H (sortComparator H (safeSort options) (nullish (sortOrder options) Asc)) rows"

definition toWorkItem :: "Host \<Rightarrow> int \<Rightarrow> nat \<times> row \<Rightarrow> WorkItem" where
  "toWorkItem H offset ir =
     (case ir of (i, r) \<Rightarrow>
       \<lparr>id_w = intToString (offset + int i + 1),
        rate_code_w = safeString H (r (js ''rate_code'')),
        rate_original_name_w = safeString H (r (js ''rate_original_name'')),
        rate_name_english_w = safeString H (r (js ''rate_name_english'')),
        rate_unit_w = safeString H (r (js ''rate_unit'')),
        resource_price_per_unit_w = safeNumber H (r (js ''resource_price_per_unit'')),
        category_type_w = safeString H (r (js ''category_type'')),
        subcategory_w = safeString H (r (js ''subcategory'')),
        resource_type_w = safeString H (r (js ''resource_type'')),
        resource_name_w = safeString H (r (js ''resource_name'')),
        resource_unit_w = safeString H (r (js ''resource_unit'')),
        resource_quantity_w = safeNumber H (r (js ''resource_quantity''))\<rparr>)"

text \<open>\<open>Math.ceil(total / limit)\<close>.\<close>

definition ceilDiv :: "nat \<Rightarrow> int \<Rightarrow> jsnum" where
  "ceilDiv n d =
     (if d = 0 then (if n = 0 then NaN else PosInf)
      else Fin (real_of_int \<lceil>real n / real_of_int d\<rceil>))"

text \<open>
  \<open>queryWorkItems\<close> on the rows loaded for the region, as computed when the query cache
  has no entry for the options (a cached entry is a result this computation returned
  earlier for the same options).
\<close>

definition queryWorkItems :: "Host \<Rightarrow> row list \<Rightarrow> QueryOptions \<Rightarrow> QueryResult" where
  "queryWorkItems H rows options =
     (let page' = nullish (page options) 1;
          limit' = nullish (limit options) 100;
          filteredRows = applyFilters H options rows;
          total' = length filteredRows;
          sortedRows = sortRows H options filteredRows;
          offset = (page' - 1) * limit';
          paginatedRows = slice sortedRows offset (offset + limit');
          totalPages' = ceilDiv total' limit'
      in \<lparr>items = map (toWorkItem H offset) (zip [0 ..< length paginatedRows] paginatedRows),
          total = total',
          page_r = page',
          totalPages = totalPages',
          limit_r = limit'\<rparr>)"


section \<open>The natural-language filter parser (SmartFilter, in lib/utils.ts)\<close>

datatype FilterOperator =
  OpEq | OpNeq | OpGt | OpGte | OpLt | OpLte | OpContains | OpBetween | OpIn

datatype FilterUnit = EUR | USD | Sqm | Sqft | Kg | Ton | UnitU | NoUnit

text \<open>\<open>string | number | [number, number]\<close>.\<close>

datatype FilterValue = VStr jstring | VNum jsnum | VRange jsnum jsnum

record ParsedFilter =
  filter_id :: jstring
  field :: jstring
  operator :: FilterOperator
  value_f :: FilterValue
  unit_f :: FilterUnit
  rawInput :: jstring
  displayLabel :: jstring

record ParseResult =
  success :: bool
  filters_r :: "ParsedFilter list"
  unrecognized :: "jstring list"

subsection \<open>The regular expressions\<close>

text \<open>
  The patterns of the parser are alternations of words in which a letter may be
  optional (\<open>euros?\<close>). A word is a list of atoms, a pattern the list of its
  alternatives in the order written. All of them carry the \<open>i\<close> flag; the words are
  ASCII or caseless symbols, for which ignoring case is comparing after folding the
  ASCII letters (without the \<open>u\<close> flag no code unit above 127 folds to an ASCII one).
\<close>

datatype atom = Lit cu | Opt cu

definition lit :: "string \<Rightarrow> atom list" where
  "lit s = map (\<lambda>c. Lit (of_char c)) s"

definition opt :: "char \<Rightarrow> atom list" where
  "opt c = [Opt (of_char c)]"

definition foldCase :: "cu \<Rightarrow> cu" where
  "foldCase c = (if 0x41 \<le> c \<and> c \<le> 0x5A then c + 0x20 else c)"

definition sameCU :: "cu \<Rightarrow> cu \<Rightarrow> bool" where
  "sameCU p c = (foldCase p = foldCase c)"

text \<open>
  Matching a word at the start of a string, returning the number of code units
  consumed. An optional letter is taken when it is there and the rest then matches
  (the quantifier is greedy), and skipped otherwise.
\<close>

fun matchWord :: "atom list \<Rightarrow> jstring \<Rightarrow> nat option" where
  "matchWord [] s = Some 0"
| "matchWord (Lit p # as) [] = None"
| "matchWord (Lit p # as) (c # cs) =
     (if sameCU p c then map_option Suc (matchWord as cs) else None)"
| "matchWord (Opt p # as) [] = matchWord as []"
| "matchWord (Opt p # as) (c # cs) =
     (if sameCU p c
      then (case matchWord as cs of Some n \<Rightarrow> Some (Suc n) | None \<Rightarrow> matchWord as (c # cs))
      else matchWord as (c # cs))"

text \<open>The first alternative, in the order written, that matches at the start.\<close>

fun matchAlt :: "atom list list \<Rightarrow> jstring \<Rightarrow> nat option" where
  "matchAlt [] s = None"
| "matchAlt (w # ws) s = (case matchWord w s of Some n \<Rightarrow> Some n | None \<Rightarrow> matchAlt ws s)"

text \<open>\<open>pattern.test(text)\<close>: the pattern matches somewhere in the text.\<close>

fun regexTest :: "atom list list \<Rightarrow> jstring \<Rightarrow> bool" where
  "regexTest pat [] = (case matchAlt pat [] of Some n \<Rightarrow> True | None \<Rightarrow> False)"
| "regexTest pat (c # cs) =
     (case matchAlt pat (c # cs) of Some n \<Rightarrow> True | None \<Rightarrow> regexTest pat cs)"

subsection \<open>The tables\<close>

definition fieldAliases :: "(jstring \<times> jstring list) list" where
  "fieldAliases =
     [(js ''cost'', map js [''cost'', ''costo'', ''price'', ''precio'', ''amount'', ''monto'',
                            ''value'', ''valor'']),
      (js ''material'', map js [''material'', ''materiales'', ''materials'', ''item'', ''items'',
                                ''producto'']),
      (js ''area'', map js [''area'', ''superficie'', ''surface'', ''size'', ''tamano'', ''m2'',
                            ''sqm'']),
      (js ''quantity'', map js [''quantity'', ''cantidad'', ''qty'', ''units'', ''unidades'',
                                ''count'']),
      (js ''weight'', map js [''weight'', ''peso'', ''kg'', ''kilos'', ''ton'', ''tons'',
                              ''toneladas'']),
      (js ''date'', map js [''date'', ''fecha'', ''created'', ''creado'', ''updated'',
                            ''modified'']),
      (js ''status'', map js [''status'', ''estado'', ''state'']),
      (js ''supplier'', map js [''supplier'', ''proveedor'', ''vendor'', ''provider'']),
      (js ''category'', map js [''category'', ''categoria'', ''type'', ''tipo''])]"

definition operatorPatterns :: "(atom list list \<times> FilterOperator) list" where
  "operatorPatterns =
     [([lit ''>='', [Lit 0x2265], lit ''mayor o igual'', lit ''greater than or equal''], OpGte),
      ([lit ''<='', [Lit 0x2264], lit ''menor o igual'', lit ''less than or equal''], OpLte),
      ([lit ''!='', lit ''<>'', [Lit 0x2260], lit ''no es'', lit ''not equal'',
        lit ''diferente''], OpNeq),
      ([lit ''>'', lit ''mayor que'', lit ''greater than'', lit ''mas de'', lit ''more than''],
       OpGt),
      ([lit ''<'', lit ''menor que'', lit ''less than'', lit ''menos de''], OpLt),
      ([lit ''='', lit ''es'', lit ''equals'', lit ''igual '' @ opt CHR ''a''], OpEq),
      ([lit ''entre'', lit ''between''], OpBetween),
      ([lit ''contiene'', lit ''contains'', lit ''incluye'', lit ''includes'', lit ''con ''],
       OpContains)]"

definition unitPatterns :: "(atom list list \<times> FilterUnit) list" where
  "unitPatterns =
     [([[Lit 0x20AC], lit ''eur'', lit ''euro'' @ opt CHR ''s''], EUR),
      ([lit ''$'', lit ''usd'', lit ''dollar'' @ opt CHR ''s'', lit ''dolare'' @ opt CHR ''s''],
       USD),
      ([lit ''m'' @ [Lit 0xB2], lit ''m2'', lit ''sqm'',
        lit ''metro'' @ opt CHR ''s'' @ lit '' cuadrado'' @ opt CHR ''s'',
        lit ''square meter'' @ opt CHR ''s''], Sqm),
      ([lit ''ft'' @ [Lit 0xB2], lit ''sqft'', lit ''square feet'',
        lit ''pie'' @ opt CHR ''s'' @ lit '' cuadrado'' @ opt CHR ''s''], Sqft),
      ([lit ''kg'', lit ''kilo'' @ opt CHR ''s'', lit ''kilogramo'' @ opt CHR ''s''], Kg),
      ([lit ''ton'', lit ''ton'' @ opt CHR ''s'', lit ''tonelada'' @ opt CHR ''s''], Ton),
      ([lit ''unidad'', lit ''unidades'', lit ''unit'', lit ''units'', lit ''pcs'',
        lit ''pieza'' @ opt CHR ''s''], UnitU)]"

subsection \<open>Fields, operators, units\<close>

fun firstField :: "(jstring \<times> jstring list) list \<Rightarrow> jstring \<Rightarrow> jstring option" where
  "firstField [] normalizedInput = None"
| "firstField ((fld, aliases) # rest) normalizedInput =
     (if list_ex (\<lambda>alias. includes_js normalizedInput alias) aliases then Some fld
      else firstField rest normalizedInput)"

definition resolveField :: "jstring \<Rightarrow> jstring option" where
  "resolveField input = firstField fieldAliases (trim (toLowerCase input))"

fun firstMatch :: "(atom list list \<times> 'a) list \<Rightarrow> jstring \<Rightarrow> 'a option" where
  "firstMatch [] text = None"
| "firstMatch ((pat, res) # rest) text =
     (if regexTest pat text then Some res else firstMatch rest text)"

definition detectOperator :: "jstring \<Rightarrow> FilterOperator option" where
  "detectOperator text = firstMatch operatorPatterns text"

definition detectUnit :: "jstring \<Rightarrow> FilterUnit" where
  "detectUnit text = (case firstMatch unitPatterns text of Some u \<Rightarrow> u | None \<Rightarrow> NoUnit)"

subsection \<open>Values\<close>

text \<open>
  \<open>\d+(?:[.,]\d+)?\<close> at the start of a string: the digits, the fraction digits (empty
  when there is no fraction) and the rest. Every quantifier takes all it can; in the
  expressions below nothing that may follow an occurrence can start with a digit, a
  point or a comma, so that no shorter choice ever leads to a match.
\<close>

definition matchNumber :: "jstring \<Rightarrow> (jstring \<times> jstring \<times> jstring) option" where
  "matchNumber s =
     (let ds = takeWhile isDigit s; r = dropWhile isDigit s
      in if ds = [] then None
         else (case r of
                 c # r' \<Rightarrow>
                   (if (c = of_char CHR ''.'' \<or> c = of_char CHR '','') \<and>
                       takeWhile isDigit r' \<noteq> []
                    then Some (ds, takeWhile isDigit r', dropWhile isDigit r')
                    else Some (ds, [], r))
               | [] \<Rightarrow> Some (ds, [], r)))"

text \<open>
  \<open>parseFloat\<close> of such an occurrence, its comma replaced by a point: the decimal
  number it writes (exactly; neither rounding nor overflow to \<open>Infinity\<close> is modelled).
\<close>

definition digitValue :: "cu \<Rightarrow> nat" where
  "digitValue c = unat (c - 0x30)"

definition digitsValue :: "jstring \<Rightarrow> nat" where
  "digitsValue ds = foldl (\<lambda>acc c. 10 * acc + digitValue c) 0 ds"

definition parseFloat :: "jstring \<times> jstring \<Rightarrow> jsnum" where
  "parseFloat m =
     (case m of (ds, fs) \<Rightarrow> Fin (real (digitsValue ds) + real (digitsValue fs) / 10 ^ length fs))"

text \<open>\<open>(?:-|to|a|y)\<close> at the start of a string: the rest after it.\<close>

definition matchSeparator :: "jstring \<Rightarrow> jstring option" where
  "matchSeparator s =
     (case matchAlt [lit ''-'', lit ''to'', lit ''a'', lit ''y''] s of
        Some n \<Rightarrow> Some (drop n s) | None \<Rightarrow> None)"

text \<open>
  The range expression
  \<open>(\d+(?:[.,]\d+)?)\s*(?:-|to|a|y)\s*(\d+(?:[.,]\d+)?)\<close> at the start of a string,
  returning its two groups.
\<close>

definition rangeAt :: "jstring \<Rightarrow> ((jstring \<times> jstring) \<times> (jstring \<times> jstring)) option" where
  "rangeAt s =
     (case matchNumber s of
        None \<Rightarrow> None
      | Some (d1, f1, r1) \<Rightarrow>
          (case matchSeparator (dropWhile isSpace r1) of
             None \<Rightarrow> None
           | Some r2 \<Rightarrow>
               (case matchNumber (dropWhile isSpace r2) of
                  None \<Rightarrow> None
                | Some (d2, f2, r3) \<Rightarrow> Some ((d1, f1), (d2, f2)))))"

text \<open>\<open>text.match(...)\<close>: the leftmost occurrence.\<close>

fun rangeMatch :: "jstring \<Rightarrow> ((jstring \<times> jstring) \<times> (jstring \<times> jstring)) option" where
  "rangeMatch [] = None"
| "rangeMatch (c # cs) =
     (case rangeAt (c # cs) of Some m \<Rightarrow> Some m | None \<Rightarrow> rangeMatch cs)"

fun numberMatch :: "jstring \<Rightarrow> (jstring \<times> jstring) option" where
  "numberMatch [] = None"
| "numberMatch (c # cs) =
     (case matchNumber (c # cs) of Some (ds, fs, r) \<Rightarrow> Some (ds, fs) | None \<Rightarrow> numberMatch cs)"

text \<open>The two \<open>replace\<close> calls that clean a text without numbers.\<close>

definition operatorSigns :: "cu list" where
  "operatorSigns = js ''<>=!'' @ [0x2265, 0x2264, 0x2260]"

definition stopWords :: "atom list list" where
  "stopWords =
     [lit ''mayor'', lit ''menor'', lit ''igual'', lit ''que'', lit ''a'', lit ''de'', lit ''o'',
      lit ''es'', lit ''no'', lit ''entre'', lit ''y'', lit ''contiene'', lit ''con'',
      lit ''include'' @ opt CHR ''s'', lit ''greater'', lit ''less'', lit ''than'', lit ''equal'',
      lit ''between'', lit ''and'', lit ''contain'' @ opt CHR ''s'']"

text \<open>
  \<open>replace(/.../gi, '')\<close>: scanning from the left, an occurrence is dropped and the
  scan resumes behind it. Every word starts with a letter, so an occurrence of \<open>n\<close> code
  units covers the current one and \<open>n - 1\<close> more.
\<close>

fun removeWords :: "atom list list \<Rightarrow> jstring \<Rightarrow> jstring" where
  "removeWords pat [] = []"
| "removeWords pat (c # cs) =
     (case matchAlt pat (c # cs) of
        Some n \<Rightarrow> removeWords pat (drop (n - 1) cs)
      | None \<Rightarrow> c # removeWords pat cs)"

definition cleanText :: "jstring \<Rightarrow> jstring" where
  "cleanText text =
     trim (removeWords stopWords (filter (\<lambda>c. c \<notin> set operatorSigns) text))"

definition extractValue :: "jstring \<Rightarrow> FilterValue option" where
  "extractValue text =
     (case rangeMatch text of
        Some (m1, m2) \<Rightarrow> Some (VRange (parseFloat m1) (parseFloat m2))
      | None \<Rightarrow>
          (case numberMatch text of
             Some m \<Rightarrow> Some (VNum (parseFloat m))
           | None \<Rightarrow>
               (let cleanedText = cleanText text
                in if length cleanedText > 0 then Some (VStr cleanedText) else None)))"


subsection \<open>Splitting the query\<close>

text \<open>\<open>\s+w\s+\<close> at the start of a string, for a word \<open>w\<close>: the length of the occurrence.\<close>

definition spacedWord :: "string \<Rightarrow> jstring \<Rightarrow> nat option" where
  "spacedWord w s =
     (let n1 = length (takeWhile isSpace s); r = dropWhile isSpace s
      in if n1 = 0 then None
         else (case matchWord (lit w) r of
                 None \<Rightarrow> None
               | Some k \<Rightarrow>
                   (let n2 = length (takeWhile isSpace (drop k r))
                    in if n2 = 0 then None else Some (n1 + k + n2))))"

text \<open>The delimiter expression \<open>/[,;]|\s+y\s+|\s+and\s+/i\<close> at the start of a string.\<close>

definition delimiterAt :: "jstring \<Rightarrow> nat option" where
  "delimiterAt s =
     (case s of
        [] \<Rightarrow> None
      | c # cs \<Rightarrow>
          (if c = of_char CHR '','' \<or> c = of_char CHR '';'' then Some 1
           else (case spacedWord ''y'' s of
                   Some n \<Rightarrow> Some n
                 | None \<Rightarrow> spacedWord ''and'' s)))"

text \<open>
  \<open>query.split(...)\<close>: \<open>cur\<close> is the piece read so far. A delimiter of \<open>n\<close> code units
  closes the piece and the scan resumes behind it; the last piece is closed by the end
  of the string (so the empty string splits into one empty piece).
\<close>

fun split_js :: "jstring \<Rightarrow> jstring \<Rightarrow> jstring list" where
  "split_js cur [] = [cur]"
| "split_js cur (c # cs) =
     (case delimiterAt (c # cs) of
        Some n \<Rightarrow> cur # split_js [] (drop (n - 1) cs)
      | None \<Rightarrow> split_js (cur @ [c]) cs)"

text \<open>\<open>query.split(...).map(s => s.trim()).filter(Boolean)\<close>.\<close>

definition segments :: "jstring \<Rightarrow> jstring list" where
  "segments query = filter (\<lambda>s. s \<noteq> []) (map trim (split_js [] query))"

subsection \<open>Filters\<close>

text \<open>
  \<open>generateFilterId\<close> increments the module's counter and reads the clock; \<open>clock n\<close>
  is the value of \<open>Date.now()\<close> when the counter has become \<open>n\<close>.
\<close>

definition generateFilterId :: "(nat \<Rightarrow> nat) \<Rightarrow> nat \<Rightarrow> jstring \<times> nat" where
  "generateFilterId clock filterIdCounter =
     (let n = filterIdCounter + 1
      in (js ''filter-'' @ natToString (clock n) @ js ''-'' @ natToString n, n))"

fun operatorSymbols :: "FilterOperator \<Rightarrow> jstring" where
  "operatorSymbols OpEq = js ''=''"
| "operatorSymbols OpNeq = js ''!=''"
| "operatorSymbols OpGt = js ''>''"
| "operatorSymbols OpGte = js ''>=''"
| "operatorSymbols OpLt = js ''<''"
| "operatorSymbols OpLte = js ''<=''"
| "operatorSymbols OpContains = js '':''"
| "operatorSymbols OpBetween = js '':''"
| "operatorSymbols OpIn = js '':''"

text \<open>\<open>unitSymbols[unit] || unit\<close>, behind a space; nothing for \<open>none\<close>.\<close>

fun unitSuffix :: "FilterUnit \<Rightarrow> jstring" where
  "unitSuffix EUR = js '' '' @ [0x20AC]"
| "unitSuffix USD = js '' $''"
| "unitSuffix Sqm = js '' m'' @ [0xB2]"
| "unitSuffix Sqft = js '' ft'' @ [0xB2]"
| "unitSuffix Kg = js '' kg''"
| "unitSuffix Ton = js '' ton''"
| "unitSuffix UnitU = js '' unit''"
| "unitSuffix NoUnit = []"

fun valueStr :: "Host \<Rightarrow> FilterValue \<Rightarrow> jstring" where
  "valueStr H (VRange a b) = numberToString H a @ js ''-'' @ numberToString H b"
| "valueStr H (VNum a) = numberToString H a"
| "valueStr H (VStr s) = s"

definition createDisplayLabel ::
  "Host \<Rightarrow> jstring \<Rightarrow> FilterOperator \<Rightarrow> FilterValue \<Rightarrow> FilterUnit \<Rightarrow> jstring" where
  "createDisplayLabel H fld op v u =
     fld @ js '' '' @ operatorSymbols op @ js '' '' @ valueStr H v @ unitSuffix u"

text \<open>
  One turn of the loop over the segments. The state is the two result lists and the
  identifier counter.
\<close>

definition parseSegment ::
  "Host \<Rightarrow> (nat \<Rightarrow> nat) \<Rightarrow> ParsedFilter list \<times> jstring list \<times> nat \<Rightarrow> jstring
   \<Rightarrow> ParsedFilter list \<times> jstring list \<times> nat" where
  "parseSegment H clock st segment =
     (case st of (fs, us, counter) \<Rightarrow>
       (let fld = resolveField segment;
            op = (case detectOperator segment of Some op' \<Rightarrow> op' | None \<Rightarrow> OpContains);
            v = extractValue segment;
            u = detectUnit segment
        in case (fld, v) of
             (Some fld', Some v') \<Rightarrow>
               (case generateFilterId clock counter of (fid, counter') \<Rightarrow>
                 (fs @ [\<lparr>filter_id = fid, field = fld', operator = op, value_f = v',
                         unit_f = u, rawInput = segment,
                         displayLabel = createDisplayLabel H fld' op v' u\<rparr>],
                  us, counter'))
           | _ \<Rightarrow> (if length segment > 2 then (fs, us @ [segment], counter)
                   else (fs, us, counter))))"

text \<open>
  \<open>parseNaturalLanguageQuery\<close>, with the identifier counter passed in and returned.
\<close>

definition parseNaturalLanguageQuery ::
  "Host \<Rightarrow> (nat \<Rightarrow> nat) \<Rightarrow> nat \<Rightarrow> jstring \<Rightarrow> ParseResult \<times> nat" where
  "parseNaturalLanguageQuery H clock filterIdCounter query =
     (case foldl (parseSegment H clock) ([], [], filterIdCounter) (segments query) of
        (fs, us, counter) \<Rightarrow>
          (\<lparr>success = length fs > 0, filters_r = fs, unrecognized = us\<rparr>, counter))"


section \<open>Inputs of the worked examples\<close>

text \<open>A query with every option left out.\<close>

definition defaultOptions :: QueryOptions where
  "defaultOptions =
     \<lparr>page = None, limit = None, search = None, category = None, sortBy = None,
      sortOrder = None, minPrice = None, maxPrice = None\<rparr>"

text \<open>
  A row with a code (\<open>rate_code\<close>, the row's identifier) and a price cell
  (\<open>resource_price_per_unit\<close>, its cost), and no other column.
\<close>

definition exampleRow :: "string \<Rightarrow> cell \<Rightarrow> row" where
  "exampleRow code price =
     (\<lambda>k. if k = js ''rate_code'' then Str (js code)
          else if k = js ''resource_price_per_unit'' then price
          else Undefined)"

definition exampleRows :: "row list" where
  "exampleRows =
     [exampleRow ''A'' (Num (Fin 50)), exampleRow ''B'' (Num (Fin 150)), exampleRow ''C'' Null]"

text \<open>
  An instance of the host parameters for closed examples: whole numbers print in
  decimal, a string of digits reads as the number it writes, strings compare code unit by
  code unit, and an array with an inconsistent comparator is ordered the way V8 orders
  an array shorter than 64 elements (\<open>shortArraySort\<close> below).
\<close>

fun compareCU :: "jstring \<Rightarrow> jstring \<Rightarrow> int" where
  "compareCU [] [] = 0"
| "compareCU [] (b # bs) = - 1"
| "compareCU (a # as) [] = 1"
| "compareCU (a # as) (b # bs) =
     (if a < b then - 1 else if b < a then 1 else compareCU as bs)"

fun printNumber :: "jsnum \<Rightarrow> jstring" where
  "printNumber (Fin x) = intToString \<lfloor>x\<rfloor>"
| "printNumber NaN = js ''NaN''"
| "printNumber PosInf = js ''Infinity''"
| "printNumber NegInf = js ''-Infinity''"

definition readNumber :: "jstring \<Rightarrow> jsnum" where
  "readNumber s = (if s \<noteq> [] \<and> list_all isDigit s then Fin (real (digitsValue s)) else NaN)"

text \<open>
  V8 sorts an array of 2 to 63 elements as one run: it takes the longest ascending or
  strictly descending stretch at the front (reversing a descending one) and inserts each
  further element at the place a binary search finds. A comparator result that is not
  negative, \<open>NaN\<close> included, sends the search to the right. (Longer arrays are cut into
  several runs that are merged; this instance does not follow them there.)
\<close>

fun extendRun :: "('a \<Rightarrow> 'a \<Rightarrow> jsnum) \<Rightarrow> bool \<Rightarrow> 'a \<Rightarrow> 'a list \<Rightarrow> nat" where
  "extendRun cmp descending previous [] = 0"
| "extendRun cmp descending previous (x # xs) =
     (if descending
      then (if negative (cmp x previous) then Suc (extendRun cmp descending x xs) else 0)
      else (if negative (cmp x previous) then 0 else Suc (extendRun cmp descending x xs)))"

fun countAndMakeRun :: "('a \<Rightarrow> 'a \<Rightarrow> jsnum) \<Rightarrow> 'a list \<Rightarrow> nat \<times> 'a list" where
  "countAndMakeRun cmp (a # b # rest) =
     (let descending = negative (cmp b a);
          runLength = 2 + extendRun cmp descending b rest
      in (runLength,
          if descending
          then rev (take runLength (a # b # rest)) @ drop runLength (a # b # rest)
          else a # b # rest))"
| "countAndMakeRun cmp [a] = (1, [a])"
| "countAndMakeRun cmp [] = (0, [])"

function binarySearch :: "('a \<Rightarrow> 'a \<Rightarrow> jsnum) \<Rightarrow> 'a \<Rightarrow> 'a list \<Rightarrow> nat \<Rightarrow> nat \<Rightarrow> nat" where
  "binarySearch cmp pivot xs left right =
     (if left < right
      then (if negative (cmp pivot (xs ! (left + (right - left) div 2)))
            then binarySearch cmp pivot xs left (left + (right - left) div 2)
            else binarySearch cmp pivot xs (left + (right - left) div 2 + 1) right)
      else left)"
  by pat_completeness auto
termination
  by (relation "measure (\<lambda>(cmp, pivot, xs, left, right). right - left)") auto

declare binarySearch.simps [simp del]

text \<open>
  Inserting the elements from position \<open>pos\<close> on, \<open>n\<close> of them, each into the sorted
  stretch in front of it.
\<close>

fun binaryInsertion :: "('a \<Rightarrow> 'a \<Rightarrow> jsnum) \<Rightarrow> nat \<Rightarrow> nat \<Rightarrow> 'a list \<Rightarrow> 'a list" where
  "binaryInsertion cmp pos 0 xs = xs"
| "binaryInsertion cmp pos (Suc n) xs =
     (let pivot = xs ! pos;
          left = binarySearch cmp pivot xs 0 pos
      in binaryInsertion cmp (Suc pos) n
           (take left xs @ [pivot] @ drop left (take pos xs) @ drop (Suc pos) xs))"

definition shortArraySort :: "('a \<Rightarrow> 'a \<Rightarrow> jsnum) \<Rightarrow> 'a list \<Rightarrow> 'a list" where
  "shortArraySort cmp xs =
     (if length xs < 2 then xs
      else (case countAndMakeRun cmp xs of
              (runLength, ys) \<Rightarrow> binaryInsertion cmp runLength (length xs - runLength) ys))"

definition exampleHost :: Host where
  "exampleHost =
     \<lparr>numberToString = printNumber, stringToNumber = readNumber, localeCompare = compareCU,
      engineSort = shortArraySort\<rparr>"


text \<open>The query \<open>materiales > 500\<euro>, area < 50m2\<close> (the sign after 500 is U+20AC).\<close>

definition exampleQuery :: jstring where
  "exampleQuery = js ''materiales > 500'' @ [0x20AC] @ js '', area < 50m2''"

text \<open>A clock that stands still.\<close>

definition exampleClock :: "nat \<Rightarrow> nat" where
  "exampleClock n = 0"

text \<open>Three priced rows, two of them with the same price, and a query sorted by price.\<close>

definition pricedRows :: "row list" where
  "pricedRows =
     [exampleRow ''A'' (Num (Fin 5)), exampleRow ''B'' (Num (Fin 3)),
      exampleRow ''C'' (Num (Fin 5))]"

definition byPrice :: QueryOptions where
  "byPrice = defaultOptions\<lparr>sortBy := Some (js ''resource_price_per_unit'')\<rparr>"

text \<open>Three rows with the codes b, a, b (in the default query, sorted by code).\<close>

definition codedRows :: "row list" where
  "codedRows =
     [exampleRow ''b'' (Num (Fin 1)), exampleRow ''a'' (Num (Fin 2)),
      exampleRow ''b'' (Num (Fin 3))]"

text \<open>Seven rows with the prices 2, 1, \<open>NaN\<close>, 1, 1, 1, 1.\<close>

definition nanRows :: "row list" where
  "nanRows =
     [exampleRow ''R0'' (Num (Fin 2)), exampleRow ''R1'' (Num (Fin 1)),
      exampleRow ''R2'' (Num NaN), exampleRow ''R3'' (Num (Fin 1)),
      exampleRow ''R4'' (Num (Fin 1)), exampleRow ''R5'' (Num (Fin 1)),
      exampleRow ''R6'' (Num (Fin 1))]"


section \<open>The table store: persistence and column visibility\<close>

text \<open>
  Claim C10. The persistence boundary of the table store. What is handed to the
  persistence middleware does not depend on the filters (neither the conditions nor the
  global search string), and it is exactly as informative as the view mode, the visible
  columns (the \<open>visibleColumns\<close> list and TanStack's \<open>columnVisibility\<close> map), the sort
  and the column widths: two states persist alike if and only if they agree on these.
  The object kept in the storage does not depend on the filters either. A new session
  starts with the default filters whatever the storage holds, and its persisted fields
  are those of the stored object: storing a state and loading it gives back its view
  mode, visible columns, sort and column visibility, and its column widths with every
  width that is not a finite number replaced by \<open>null\<close>. The row selection is not a
  field of the store at all: it is local state of the table component and starts empty.
\<close>

theorem C10_persisted_fields:
  "partialize (s\<lparr>filters := f\<rparr>) = partialize s
   \<and> (partialize s = partialize t \<longleftrightarrow>
        viewMode s = viewMode t \<and> visibleColumns s = visibleColumns t \<and> sorting s = sorting t
        \<and> columnVisibility s = columnVisibility t \<and> columnSizing s = columnSizing t)
   \<and> storedObject (s\<lparr>filters := f\<rparr>) = storedObject s
   \<and> viewMode (rehydrate (Some (storedObject s))) = viewMode s
   \<and> visibleColumns (rehydrate (Some (storedObject s))) = visibleColumns s
   \<and> sorting (rehydrate (Some (storedObject s))) = sorting s
   \<and> columnVisibility (rehydrate (Some (storedObject s))) = columnVisibility s
   \<and> columnSizing (rehydrate (Some (storedObject s))) k
        = map_option jsonNumber (columnSizing s k)
   \<and> filters (rehydrate stored) = DEFAULT_FILTERS
   \<and> partialize (rehydrate (Some p)) = p
   \<and> selectedRowIds initialDataTableState = {}"
proof -
  have "partialize (s\<lparr>filters := f\<rparr>) = partialize s"
    by (simp add: partialize_def)
  moreover have "partialize s = partialize t \<longleftrightarrow>
        viewMode s = viewMode t \<and> visibleColumns s = visibleColumns t \<and> sorting s = sorting t
        \<and> columnVisibility s = columnVisibility t \<and> columnSizing s = columnSizing t"
    by (auto simp: partialize_def)
  moreover have "storedObject (s\<lparr>filters := f\<rparr>) = storedObject s"
    by (simp add: storedObject_def partialize_def)
  moreover have "viewMode (rehydrate (Some (storedObject s))) = viewMode s"
    "visibleColumns (rehydrate (Some (storedObject s))) = visibleColumns s"
    "sorting (rehydrate (Some (storedObject s))) = sorting s"
    "columnVisibility (rehydrate (Some (storedObject s))) = columnVisibility s"
    "columnSizing (rehydrate (Some (storedObject s))) k
       = map_option jsonNumber (columnSizing s k)"
    by (simp_all add: rehydrate_def storedObject_def partialize_def)
  moreover have "filters (rehydrate stored) = DEFAULT_FILTERS"
    by (cases stored) (simp_all add: rehydrate_def initialState_def)
  moreover have "partialize (rehydrate (Some p)) = p"
    by (simp add: rehydrate_def partialize_def initialState_def)
  moreover have "selectedRowIds initialDataTableState = {}"
    by (simp add: initialDataTableState_def)
  ultimately show ?thesis
    by (intro conjI)
qed

text \<open>
  \<open>toggleColumn\<close> keeps a list of visible columns without repetitions non-empty and
  without repetitions, whatever is toggled: hiding is refused when one column is left.
\<close>

lemma toggleColumn_keeps_visible:
  assumes "distinct (visibleColumns s)" and "visibleColumns s \<noteq> []"
  shows "distinct (visibleColumns (toggleColumn c s)) \<and> visibleColumns (toggleColumn c s) \<noteq> []"
proof (cases "c \<in> set (visibleColumns s)")
  case False
  with assms show ?thesis by (simp add: toggleColumn_def)
next
  case True
  show ?thesis
  proof (cases "length (visibleColumns s) > 1")
    case False
    with True assms show ?thesis by (simp add: toggleColumn_def)
  next
    case long: True
    then obtain x y zs where xs: "visibleColumns s = x # y # zs"
      by (cases "visibleColumns s"; cases "tl (visibleColumns s)") auto
    with assms have "x \<noteq> y" by auto
    then have "x \<noteq> c \<or> y \<noteq> c" by auto
    then have "filter (\<lambda>k. k \<noteq> c) (visibleColumns s) \<noteq> []"
      by (auto simp: xs)
    with True long assms show ?thesis by (simp add: toggleColumn_def)
  qed
qed

lemma toggleColumns_keep_visible:
  "distinct (visibleColumns s) \<Longrightarrow> visibleColumns s \<noteq> [] \<Longrightarrow>
   distinct (visibleColumns (toggleColumns cs s)) \<and> visibleColumns (toggleColumns cs s) \<noteq> []"
  by (induction cs arbitrary: s) (simp_all add: toggleColumn_keeps_visible)

text \<open>
  Claim C7. No run of \<open>toggleColumn\<close> calls empties the visible columns. The guard of
  \<open>toggleColumn\<close> counts the entries of the list, not the columns: when the list names
  one column twice (\<open>setVisibleColumns\<close> stores any list), toggling that column passes
  the guard and removes every entry.
\<close>

theorem C7_duplicate_column_hides_all:
  "visibleColumns (toggleColumn K_id (setVisibleColumns [K_id, K_id] initialState)) = []"
  by (simp add: toggleColumn_def setVisibleColumns_def)


section \<open>Subtotals\<close>

text \<open>
  Claim C8. The subtotal of a mapped row is the row's \<open>resource_cost\<close> when it has one,
  and the product of the item's unit cost and quantity otherwise; the unit cost is the
  first present of \<open>resource_price_per_unit\<close>, \<open>price_est_median\<close>, \<open>price_est_mean\<close>,
  else 0; the quantity is \<open>resource_quantity\<close>, else 1. An item built by
  \<open>createConstructionItem\<close> has the product of its unit cost and quantity as subtotal,
  and otherwise the fields it was given.
\<close>

theorem C8_subtotal:
  "subtotal (mapToConstructionItem row i) =
     (case resource_cost row of
        Some c \<Rightarrow> c
      | None \<Rightarrow> js_mul (costoUnitario (mapToConstructionItem row i))
                       (cantidad (mapToConstructionItem row i)))
   \<and> costoUnitario (mapToConstructionItem row i) =
       (case resource_price_per_unit row of
          Some p \<Rightarrow> p
        | None \<Rightarrow> (case price_est_median row of
                     Some p \<Rightarrow> p
                   | None \<Rightarrow> (case price_est_mean row of Some p \<Rightarrow> p | None \<Rightarrow> Fin 0)))
   \<and> cantidad (mapToConstructionItem row i) =
       (case resource_quantity row of Some q \<Rightarrow> q | None \<Rightarrow> Fin 1)
   \<and> subtotal (createConstructionItem input) =
       js_mul (costoUnitario (createConstructionItem input))
              (cantidad (createConstructionItem input))
   \<and> ConstructionItemInput.truncate (createConstructionItem input) = input"
  by (auto simp: mapToConstructionItem_def createConstructionItem_def Let_def
        ConstructionItemInput.extend_def ConstructionItemInput.truncate_def
        ConstructionItem.fields_def split: option.splits)


section \<open>Virtualization padding\<close>

lemma window_heights:
  assumes "n > 0"
  shows "paddingTop (map (itemAt h) [f ..< f + n]) = real f * h"
    and "renderedHeight (map (itemAt h) [f ..< f + n]) = real n * h"
    and "paddingBottom (map (itemAt h) [f ..< f + n]) t = t - real (f + n) * h"
proof -
  from assms have ne: "[f ..< f + n] \<noteq> []" by simp
  then show "paddingTop (map (itemAt h) [f ..< f + n]) = real f * h"
    using assms by (simp add: paddingTop_def hd_map itemAt_def)
  show "renderedHeight (map (itemAt h) [f ..< f + n]) = real n * h"
    by (simp add: renderedHeight_def itemAt_def comp_def sum_list_triv)
  from assms have "last [f ..< f + n] = f + n - 1" by simp
  with ne assms show "paddingBottom (map (itemAt h) [f ..< f + n]) t = t - real (f + n) * h"
    by (simp add: paddingBottom_def last_map itemAt_def)
qed

lemma visibleRange_bounds:
  "visibleRange n s v h = Some (f, l) \<Longrightarrow> f \<le> l \<and> l < n"
  by (auto simp: visibleRange_def Let_def split: if_splits)

lemma computeWindow_bounds:
  assumes "computeWindow n s v h ov = Some (f, l)"
  shows "f \<le> l \<and> l < n"
proof -
  from assms obtain f0 l0 where vis: "visibleRange n s v h = Some (f0, l0)"
    and f: "f = f0 - ov" and l: "l = min (n - 1) (l0 + ov)"
    by (auto simp: computeWindow_def split: option.splits)
  from visibleRange_bounds [OF vis] have "f0 \<le> l0" "l0 < n" by simp_all
  with f l show ?thesis by auto
qed

lemma computeWindow_covers_visible:
  assumes h: "0 < h" and v: "0 < v" and i: "i < n"
    and top: "real i * h < s + v" and bottom: "s < real (i + 1) * h"
  shows "\<exists>f l. computeWindow n s v h ov = Some (f, l) \<and> f \<le> i \<and> i \<le> l"
proof -
  define F where "F = nat \<lfloor>s / h\<rfloor>"
  define E where "E = min n (nat \<lceil>(s + v) / h\<rceil>)"
  from bottom h have "s / h < real (i + 1)"
    by (simp add: pos_divide_less_eq)
  then have "\<lfloor>s / h\<rfloor> < int (i + 1)"
    by (simp add: floor_less_iff)
  then have f0: "F \<le> i" by (simp add: F_def)
  from top h have "real i < (s + v) / h"
    by (simp add: pos_less_divide_eq)
  then have "int i < \<lceil>(s + v) / h\<rceil>"
    by (simp add: less_ceiling_iff)
  then have "i < nat \<lceil>(s + v) / h\<rceil>" by simp
  with i have e: "i < E" by (simp add: E_def)
  from f0 e have fe: "F < E" by simp
  from h v have guard: "\<not> (h \<le> 0 \<or> v \<le> 0)" by simp
  have "visibleRange n s v h = (if F < E then Some (F, E - 1) else None)"
    unfolding visibleRange_def Let_def F_def E_def using guard by (simp only: if_False)
  with fe have "visibleRange n s v h = Some (F, E - 1)" by simp
  then have "computeWindow n s v h ov = Some (F - ov, min (n - 1) (E - 1 + ov))"
    by (simp add: computeWindow_def)
  moreover from f0 have "F - ov \<le> i" by simp
  moreover have "i \<le> min (n - 1) (E - 1 + ov)"
  proof -
    from i have "i \<le> n - 1" by simp
    moreover from e have "i \<le> E - 1 + ov" by simp
    ultimately show ?thesis by simp
  qed
  ultimately show ?thesis by blast
qed

text \<open>
  Claim C2, amended. The virtual rows are the rows of the window, and every index among
  them is below \<open>totalCount\<close>. Whenever there is at least one virtual row (or the table
  has no rows at all), the top padding, the heights of the rendered rows and the bottom
  padding add up to \<open>totalCount * rowHeight\<close>. When there is no virtual row, both
  paddings are 0, so that for a non-empty table the identity fails, as the last example
  of this section shows. With a window from \<open>f\<close> to \<open>l\<close>, the virtual rows are the rows
  \<open>f\<close> to \<open>l\<close>, the top padding is \<open>f * rowHeight\<close> and the bottom padding is
  \<open>(totalCount - 1 - l) * rowHeight\<close>.
\<close>

theorem C2_padding_identity:
  assumes rows: "virtualRows = getVirtualItems totalCount scrollOffset viewportHeight rowHeight overscan"
    and total: "totalSize = getTotalSize totalCount rowHeight"
  shows "(\<forall>v \<in> set virtualRows. index v < totalCount)
         \<and> (virtualRows \<noteq> [] \<or> totalCount = 0 \<longrightarrow>
              paddingTop virtualRows + renderedHeight virtualRows
                + paddingBottom virtualRows totalSize = real totalCount * rowHeight)
         \<and> (virtualRows = [] \<longrightarrow>
              paddingTop virtualRows = 0 \<and> paddingBottom virtualRows totalSize = 0)
         \<and> (computeWindow totalCount scrollOffset viewportHeight rowHeight overscan = Some (f, l)
              \<longrightarrow> f \<le> l \<and> l < totalCount \<and> map index virtualRows = [f ..< Suc l]
                  \<and> paddingTop virtualRows = real f * rowHeight
                  \<and> paddingBottom virtualRows totalSize = real (totalCount - 1 - l) * rowHeight)"
proof (cases "computeWindow totalCount scrollOffset viewportHeight rowHeight overscan")
  case None
  with rows have e: "virtualRows = []" by (simp add: getVirtualItems_def)
  with None total show ?thesis
    by (simp add: paddingTop_def paddingBottom_def renderedHeight_def getTotalSize_def)
next
  case (Some w)
  obtain a b where w: "w = (a, b)" by (cases w)
  from Some w have win: "computeWindow totalCount scrollOffset viewportHeight rowHeight overscan
                           = Some (a, b)" by simp
  from computeWindow_bounds [OF win] have ab: "a \<le> b" and b: "b < totalCount" by simp_all
  define n where "n = Suc b - a"
  from ab have n: "n > 0" and up: "Suc b = a + n" by (simp_all add: n_def)
  from rows win have "virtualRows = map (itemAt rowHeight) [a ..< Suc b]"
    by (simp add: getVirtualItems_def del: upt_Suc)
  then have run: "virtualRows = map (itemAt rowHeight) [a ..< a + n]"
    by (simp only: up)
  from n run have ne: "virtualRows \<noteq> []" by simp
  have pt: "paddingTop virtualRows = real a * rowHeight"
    and rh: "renderedHeight virtualRows = real n * rowHeight"
    and pb: "paddingBottom virtualRows totalSize = totalSize - real (a + n) * rowHeight"
    using window_heights [OF n, of rowHeight a] by (simp_all add: run)
  from b up have cnt: "real (totalCount - 1 - b) = real totalCount - real (a + n)"
    by simp
  have "paddingTop virtualRows + renderedHeight virtualRows + paddingBottom virtualRows totalSize
          = real a * rowHeight + real n * rowHeight + (totalSize - real (a + n) * rowHeight)"
    by (simp only: pt rh pb)
  also have "\<dots> = real totalCount * rowHeight"
    by (simp add: total getTotalSize_def algebra_simps)
  finally have sum: "paddingTop virtualRows + renderedHeight virtualRows
               + paddingBottom virtualRows totalSize = real totalCount * rowHeight" .
  have "totalSize - real (a + n) * rowHeight = real (totalCount - 1 - b) * rowHeight"
    by (simp only: cnt total getTotalSize_def) (simp add: algebra_simps)
  with pb have pb': "paddingBottom virtualRows totalSize
                       = real (totalCount - 1 - b) * rowHeight"
    by simp
  have "map index virtualRows = [a ..< a + n]"
    by (simp add: run itemAt_def comp_def)
  then have idx: "map index virtualRows = [a ..< Suc b]"
    by (simp only: up)
  have bound: "\<forall>v \<in> set virtualRows. index v < totalCount"
  proof
    fix x assume "x \<in> set virtualRows"
    then have "index x \<in> set (map index virtualRows)" by simp
    with idx b show "index x < totalCount" by auto
  qed
  from bound sum ne pt pb' idx ab b win show ?thesis by simp
qed

text \<open>
  Ten rows of 48 pixels. A viewport of 100 pixels scrolled to 96 with an overscan of 1
  renders the rows 1 to 5; a viewport without height renders none.
\<close>

theorem C2_padding_identity_witness:
  "computeWindow 10 96 100 48 1 = Some (1, 5)
   \<and> map index (getVirtualItems 10 96 100 48 1) = [1, 2, 3, 4, 5]
   \<and> list_all (\<lambda>v. index v < 10) (getVirtualItems 10 96 100 48 1)
   \<and> paddingTop (getVirtualItems 10 96 100 48 1) + renderedHeight (getVirtualItems 10 96 100 48 1)
       + paddingBottom (getVirtualItems 10 96 100 48 1) (getTotalSize 10 48) = real 10 * 48
   \<and> paddingTop (getVirtualItems 10 96 100 48 1) = 48
   \<and> paddingBottom (getVirtualItems 10 96 100 48 1) (getTotalSize 10 48) = 192
   \<and> getVirtualItems 10 0 0 48 5 = []
   \<and> paddingTop (getVirtualItems 10 0 0 48 5) = 0
   \<and> paddingBottom (getVirtualItems 10 0 0 48 5) (getTotalSize 10 48) = 0"
proof -
  have w: "computeWindow 10 96 100 48 1 = Some (1, 5)" by code_simp
  have e: "getVirtualItems 10 0 0 48 5 = []" by code_simp
  have u: "[1 ..< Suc 5] = [1, 2, 3, 4, 5::nat]" by (simp add: upt_rec)
  note a = C2_padding_identity [OF refl refl, of 10 96 100 48 1 1 5]
  note b = C2_padding_identity [OF refl refl, of 10 0 0 48 5]
  from a w u have ne: "getVirtualItems 10 96 100 48 1 \<noteq> []" by auto
  from a b w e u ne show ?thesis by (simp add: list_all_iff)
qed

text \<open>
  Ten rows of 48 pixels in a viewport without height, as on the render before the
  scroll element is measured: there is no virtual row, and the paddings and the rendered
  rows add up to 0, not to 480.
\<close>

theorem C2_no_rows_counterexample:
  "getVirtualItems 10 0 0 48 5 = []
   \<and> paddingTop (getVirtualItems 10 0 0 48 5) + renderedHeight (getVirtualItems 10 0 0 48 5)
       + paddingBottom (getVirtualItems 10 0 0 48 5) (getTotalSize 10 48) \<noteq> real 10 * 48"
proof -
  have e: "getVirtualItems 10 0 0 48 5 = []" by code_simp
  show ?thesis
    by (simp add: e paddingTop_def paddingBottom_def renderedHeight_def)
qed


section \<open>The query pipeline: prices that are missing\<close>

text \<open>
  Claim C1, amended. A row whose price is \<open>null\<close> or missing is compared as the number
  0: it passes the minimum-price filter exactly when \<open>0 >= minPrice\<close> and the
  maximum-price filter exactly when \<open>0 <= maxPrice\<close>. For the three rows with the
  codes A, B, C and the prices 50, 150, \<open>null\<close>, and a minimum price of 100, the
  result is exactly B.
\<close>

theorem C1_null_price_counts_as_zero:
  "(r (js ''resource_price_per_unit'') = Null \<or> r (js ''resource_price_per_unit'') = Undefined
      \<longrightarrow> minPriceFilter H m r = js_ge (Fin 0) m \<and> maxPriceFilter H m r = js_le (Fin 0) m)
   \<and> map rate_code_w
        (items (queryWorkItems H exampleRows (defaultOptions\<lparr>minPrice := Some (Fin 100)\<rparr>)))
       = [js ''B'']"
proof -
  have a: "r (js ''resource_price_per_unit'') = Null \<or> r (js ''resource_price_per_unit'') = Undefined
      \<longrightarrow> minPriceFilter H m r = js_ge (Fin 0) m \<and> maxPriceFilter H m r = js_le (Fin 0) m"
    by (auto simp: minPriceFilter_def maxPriceFilter_def safeNumber_def)
  have b: "map rate_code_w
        (items (queryWorkItems H exampleRows (defaultOptions\<lparr>minPrice := Some (Fin 100)\<rparr>)))
       = [js ''B'']"
    by code_simp
  from a b show ?thesis by blast
qed

text \<open>Row C against a bound of 100: rejected as a minimum, accepted as a maximum.\<close>

theorem C1_null_price_counts_as_zero_witness:
  "exampleRow ''C'' Null (js ''resource_price_per_unit'') = Null
   \<and> \<not> minPriceFilter exampleHost (Fin 100) (exampleRow ''C'' Null)
   \<and> maxPriceFilter exampleHost (Fin 100) (exampleRow ''C'' Null)"
proof -
  have c: "exampleRow ''C'' Null (js ''resource_price_per_unit'') = Null"
    by code_simp
  with C1_null_price_counts_as_zero [of "exampleRow ''C'' Null" exampleHost "Fin 100"]
  show ?thesis by (simp add: js_ge_def)
qed

text \<open>
  The row with the \<open>null\<close> price is in the result of a query for prices of at most 100:
  a \<open>null\<close> does not fail every comparison.
\<close>

theorem C1_null_passes_max_price_counterexample:
  "map rate_code_w
     (items (queryWorkItems exampleHost [exampleRow ''C'' Null]
        (defaultOptions\<lparr>maxPrice := Some (Fin 100)\<rparr>))) = [js ''C'']"
  by code_simp


section \<open>The query pipeline: sorting\<close>

lemma set_sortInsert: "set (sortInsert cmp x ys) = insert x (set ys)"
  by (induction ys) auto

lemma set_insertionSort: "set (insertionSort cmp xs) = set xs"
  by (induction xs) (auto simp: set_sortInsert)

lemma filter_sortInsert_in:
  "P x \<Longrightarrow> (\<And>y. y \<in> set ys \<Longrightarrow> P y \<Longrightarrow> \<not> positive (cmp x y)) \<Longrightarrow>
   filter P (sortInsert cmp x ys) = x # filter P ys"
  by (induction ys) auto

lemma filter_sortInsert_out:
  "\<not> P x \<Longrightarrow> filter P (sortInsert cmp x ys) = filter P ys"
  by (induction ys) auto

lemma filter_insertionSort:
  assumes eq: "\<And>x y. x \<in> S \<Longrightarrow> y \<in> S \<Longrightarrow> P x \<Longrightarrow> P y \<Longrightarrow> \<not> positive (cmp x y)"
  shows "set xs \<subseteq> S \<Longrightarrow> filter P (insertionSort cmp xs) = filter P xs"
proof (induction xs)
  case Nil
  show ?case by simp
next
  case (Cons x xs)
  then have x: "x \<in> S" and xs: "set xs \<subseteq> S"
    and ih: "filter P (insertionSort cmp xs) = filter P xs" by simp_all
  show ?case
  proof (cases "P x")
    case True
    have "filter P (sortInsert cmp x (insertionSort cmp xs)) = x # filter P (insertionSort cmp xs)"
    proof (rule filter_sortInsert_in)
      show "P x" by (rule True)
    next
      fix y assume "y \<in> set (insertionSort cmp xs)" and py: "P y"
      with xs have y: "y \<in> S" by (auto simp: set_insertionSort)
      from x y True py show "\<not> positive (cmp x y)" by (rule eq)
    qed
    with True ih show ?thesis by simp
  next
    case False
    with ih show ?thesis by (simp add: filter_sortInsert_out)
  qed
qed

lemma sorted_sortInsert:
  assumes le: "\<And>a b. a \<in> S \<Longrightarrow> b \<in> S \<Longrightarrow> \<not> positive (cmp a b) \<Longrightarrow> R a b"
    and ge: "\<And>a b. a \<in> S \<Longrightarrow> b \<in> S \<Longrightarrow> positive (cmp a b) \<Longrightarrow> R b a"
    and trans: "\<And>a b c. a \<in> S \<Longrightarrow> b \<in> S \<Longrightarrow> c \<in> S \<Longrightarrow> R a b \<Longrightarrow> R b c \<Longrightarrow> R a c"
  shows "x \<in> S \<Longrightarrow> set ys \<subseteq> S \<Longrightarrow> sorted_wrt R ys \<Longrightarrow> sorted_wrt R (sortInsert cmp x ys)"
proof (induction ys)
  case Nil
  show ?case by simp
next
  case (Cons y ys)
  show ?case
  proof (cases "positive (cmp x y)")
    case True
    with Cons ge [of x y] show ?thesis
      by (auto simp: set_sortInsert)
  next
    case False
    with Cons.prems le [of x y] have xy: "R x y" by simp
    have "R x z" if "z \<in> set ys" for z
    proof -
      from that Cons.prems have "R y z" "z \<in> S" by auto
      with xy Cons.prems show ?thesis using trans [of x y z] by simp
    qed
    with False xy Cons.prems show ?thesis by auto
  qed
qed

lemma sorted_insertionSort:
  assumes le: "\<And>a b. a \<in> S \<Longrightarrow> b \<in> S \<Longrightarrow> \<not> positive (cmp a b) \<Longrightarrow> R a b"
    and ge: "\<And>a b. a \<in> S \<Longrightarrow> b \<in> S \<Longrightarrow> positive (cmp a b) \<Longrightarrow> R b a"
    and trans: "\<And>a b c. a \<in> S \<Longrightarrow> b \<in> S \<Longrightarrow> c \<in> S \<Longrightarrow> R a b \<Longrightarrow> R b c \<Longrightarrow> R a c"
  shows "set xs \<subseteq> S \<Longrightarrow> sorted_wrt R (insertionSort cmp xs)"
proof (induction xs)
  case Nil
  show ?case by simp
next
  case (Cons x xs)
  from Cons have x: "x \<in> S" and xs: "set (insertionSort cmp xs) \<subseteq> S"
    and srt: "sorted_wrt R (insertionSort cmp xs)"
    by (simp_all add: set_insertionSort)
  have "sorted_wrt R (sortInsert cmp x (insertionSort cmp xs))"
  proof (rule sorted_sortInsert [where S = S])
    show "\<And>a b. a \<in> S \<Longrightarrow> b \<in> S \<Longrightarrow> \<not> positive (cmp a b) \<Longrightarrow> R a b" by (rule le)
    show "\<And>a b. a \<in> S \<Longrightarrow> b \<in> S \<Longrightarrow> positive (cmp a b) \<Longrightarrow> R b a" by (rule ge)
    show "\<And>a b c. a \<in> S \<Longrightarrow> b \<in> S \<Longrightarrow> c \<in> S \<Longrightarrow> R a b \<Longrightarrow> R b c \<Longrightarrow> R a c"
      by (rule trans)
  qed (rule x, rule xs, rule srt)
  then show ?case by simp
qed

lemma sign_cases: "v \<noteq> NaN \<Longrightarrow> negative v \<or> isZero v \<or> positive v"
  by (cases v) (auto simp: isZero_def)

lemma sign_exclusive:
  "negative v \<Longrightarrow> \<not> isZero v" "negative v \<Longrightarrow> \<not> positive v" "isZero v \<Longrightarrow> \<not> positive v"
  by (cases v; auto simp: isZero_def)+

lemma consistentOnD:
  assumes "consistentOn cmp xs" and "a \<in> set xs" and "b \<in> set xs" and "c \<in> set xs"
  shows "cmp a b \<noteq> NaN"
    and "isZero (cmp a a)"
    and "isZero (cmp a b) \<Longrightarrow> isZero (cmp b a)"
    and "isZero (cmp a b) \<Longrightarrow> isZero (cmp b c) \<Longrightarrow> isZero (cmp a c)"
    and "negative (cmp a b) \<Longrightarrow> negative (cmp b c) \<Longrightarrow> negative (cmp a c)"
    and "positive (cmp a b) \<Longrightarrow> positive (cmp b c) \<Longrightarrow> positive (cmp a c)"
  using assms unfolding consistentOn_def list_all_iff by blast+

lemma consistent_antisym:
  assumes c: "consistentOn cmp xs" and a: "a \<in> set xs" and b: "b \<in> set xs"
    and p: "positive (cmp a b)"
  shows "\<not> positive (cmp b a)"
proof
  assume "positive (cmp b a)"
  with p have "positive (cmp a a)" by (rule consistentOnD(6) [OF c a b a])
  moreover have "isZero (cmp a a)" by (rule consistentOnD(2) [OF c a a a])
  ultimately show False by (simp add: sign_exclusive)
qed

lemma consistent_antisym_neg:
  assumes c: "consistentOn cmp xs" and a: "a \<in> set xs" and b: "b \<in> set xs"
    and p: "negative (cmp a b)"
  shows "\<not> negative (cmp b a)"
proof
  assume "negative (cmp b a)"
  with p have "negative (cmp a a)" by (rule consistentOnD(5) [OF c a b a])
  moreover have "isZero (cmp a a)" by (rule consistentOnD(2) [OF c a a a])
  ultimately show False by (simp add: sign_exclusive)
qed

lemma consistent_trans:
  assumes c: "consistentOn cmp xs"
    and a: "a \<in> set xs" and b: "b \<in> set xs" and d: "d \<in> set xs"
    and ab: "\<not> positive (cmp a b)" and bd: "\<not> positive (cmp b d)"
  shows "\<not> positive (cmp a d)"
proof
  assume ad: "positive (cmp a d)"
  from ab sign_cases [OF consistentOnD(1) [OF c a b a]]
  have ab': "negative (cmp a b) \<or> isZero (cmp a b)" by blast
  from bd sign_cases [OF consistentOnD(1) [OF c b d a]]
  have bd': "negative (cmp b d) \<or> isZero (cmp b d)" by blast
  from ab' show False
  proof
    assume nab: "negative (cmp a b)"
    from bd' show False
    proof
      assume "negative (cmp b d)"
      with nab have "negative (cmp a d)" by (rule consistentOnD(5) [OF c a b d])
      with ad show False by (simp add: sign_exclusive)
    next
      assume zbd: "isZero (cmp b d)"
      from sign_cases [OF consistentOnD(1) [OF c b a a]]
      show False
      proof (elim disjE)
        assume "negative (cmp b a)"
        with nab show False using consistent_antisym_neg [OF c a b] by blast
      next
        assume "isZero (cmp b a)"
        then have "isZero (cmp a b)" by (rule consistentOnD(3) [OF c b a a])
        with nab show False by (simp add: sign_exclusive)
      next
        assume "positive (cmp b a)"
        then have "positive (cmp b d)" using ad by (rule consistentOnD(6) [OF c b a d])
        with zbd show False by (simp add: sign_exclusive)
      qed
    qed
  next
    assume zab: "isZero (cmp a b)"
    from bd' show False
    proof
      assume nbd: "negative (cmp b d)"
      from sign_cases [OF consistentOnD(1) [OF c d a a]]
      show False
      proof (elim disjE)
        assume "negative (cmp d a)"
        with nbd have "negative (cmp b a)" by (rule consistentOnD(5) [OF c b d a])
        moreover from zab have "isZero (cmp b a)" by (rule consistentOnD(3) [OF c a b a])
        ultimately show False by (simp add: sign_exclusive)
      next
        assume "isZero (cmp d a)"
        then have "isZero (cmp a d)" by (rule consistentOnD(3) [OF c d a a])
        with ad show False by (simp add: sign_exclusive)
      next
        assume "positive (cmp d a)"
        with ad show False using consistent_antisym [OF c a d] by blast
      qed
    next
      assume "isZero (cmp b d)"
      with zab have "isZero (cmp a d)" by (rule consistentOnD(4) [OF c a b d])
      with ad show False by (simp add: sign_exclusive)
    qed
  qed
qed


lemma sortComparator_numbers:
  "a col = Num x \<Longrightarrow> b col = Num y \<Longrightarrow>
   sortComparator H col ord a b = (if ord = Asc then js_sub x y else js_sub y x)"
  by (simp add: sortComparator_def)

lemma sortComparator_strings:
  "\<forall>x y. \<not> (a col = Num x \<and> b col = Num y) \<Longrightarrow>
   sortComparator H col ord a b =
     (if ord = Asc then Fin (real_of_int (localeCompare H (safeString H (a col)) (safeString H (b col))))
      else Fin (real_of_int (localeCompare H (safeString H (b col)) (safeString H (a col)))))"
  by (cases "a col"; cases "b col") (simp_all add: sortComparator_def Let_def)

lemma sortComparator_same_value:
  "b col = a col \<Longrightarrow> sortComparator H col ord a b = sortComparator H col ord a a"
  by (simp add: sortComparator_def)

lemma sort_js_cases:
  "sort_js H cmp xs = xs \<and> length xs < 2
   \<or> sort_js H cmp xs = insertionSort cmp xs \<and> consistentOn cmp xs
   \<or> sort_js H cmp xs = engineSort H cmp xs \<and> \<not> consistentOn cmp xs"
  by (simp add: sort_js_def)

lemma short_list_sorted: "length xs < 2 \<Longrightarrow> sorted_wrt R xs"
  by (cases xs; cases "tl xs") auto

lemma finite_numbers_consistent:
  assumes fin: "\<forall>r \<in> set rows. \<exists>x. r col = Num (Fin x)"
  shows "consistentOn (sortComparator H col ord) rows"
  unfolding consistentOn_def list_all_iff
proof (intro ballI)
  fix a b c
  assume "a \<in> set rows" "b \<in> set rows" "c \<in> set rows"
  with fin obtain x y z where v: "a col = Num (Fin x)" "b col = Num (Fin y)" "c col = Num (Fin z)"
    by blast
  show "sortComparator H col ord a b \<noteq> NaN
        \<and> isZero (sortComparator H col ord a a)
        \<and> (isZero (sortComparator H col ord a b) \<longrightarrow> isZero (sortComparator H col ord b a))
        \<and> (isZero (sortComparator H col ord a b) \<and> isZero (sortComparator H col ord b c)
             \<longrightarrow> isZero (sortComparator H col ord a c))
        \<and> (negative (sortComparator H col ord a b) \<and> negative (sortComparator H col ord b c)
             \<longrightarrow> negative (sortComparator H col ord a c))
        \<and> (positive (sortComparator H col ord a b) \<and> positive (sortComparator H col ord b c)
             \<longrightarrow> positive (sortComparator H col ord a c))"
    using v by (cases ord) (simp_all add: sortComparator_def isZero_def)
qed



lemma sort_js_consistent:
  "consistentOn cmp xs \<Longrightarrow> sort_js H cmp xs = xs \<and> length xs < 2
     \<or> sort_js H cmp xs = insertionSort cmp xs"
  by (simp add: sort_js_def)

text \<open>
  Claim C9, amended. The comparator of the query's sort is the difference of the two
  values when both are numbers and \<open>localeCompare\<close> of the two stringified values
  otherwise, with the operands exchanged for a descending sort. Whenever this comparator
  is consistent on the rows, the sort is stable (the rows holding any one value \<open>v\<close> in
  the sort column are, after sorting, in the order they had before) and no row of the
  result is placed before a row that the comparator puts in front of it. The comparator is
  consistent when every row holds a finite number in the sort column, and the result is
  then in non-decreasing order for an ascending sort and in non-increasing order for a
  descending one. With a comparator that is not consistent on the rows, as with a price
  that is \<open>NaN\<close>, the order is the engine's and need not be stable, as the last example
  of this section shows.
\<close>

theorem C9_sort_stable:
  "(a col = Num x \<and> b col = Num y \<longrightarrow>
      sortComparator H col Asc a b = js_sub x y \<and> sortComparator H col Desc a b = js_sub y x)
   \<and> ((\<forall>x y. \<not> (a col = Num x \<and> b col = Num y)) \<longrightarrow>
        sortComparator H col Asc a b =
          Fin (real_of_int (localeCompare H (safeString H (a col)) (safeString H (b col))))
        \<and> sortComparator H col Desc a b =
          Fin (real_of_int (localeCompare H (safeString H (b col)) (safeString H (a col)))))
   \<and> (consistentOn (sortComparator H (safeSort options) (nullish (sortOrder options) Asc)) rows
        \<longrightarrow>
        filter (\<lambda>r. r (safeSort options) = v) (sortRows H options rows)
          = filter (\<lambda>r. r (safeSort options) = v) rows
        \<and> sorted_wrt (\<lambda>a b. \<not> positive
              (sortComparator H (safeSort options) (nullish (sortOrder options) Asc) a b))
            (sortRows H options rows))
   \<and> ((\<forall>r \<in> set rows. \<exists>x. r (safeSort options) = Num (Fin x)) \<longrightarrow>
        consistentOn (sortComparator H (safeSort options) (nullish (sortOrder options) Asc)) rows
        \<and> sorted_wrt (\<lambda>a b. \<exists>x y. a (safeSort options) = Num (Fin x)
                          \<and> b (safeSort options) = Num (Fin y)
                          \<and> (if nullish (sortOrder options) Asc = Asc then x \<le> y else y \<le> x))
          (sortRows H options rows))"
  (is "?numbers \<and> ?strings \<and> (?consistent \<longrightarrow> ?stable \<and> ?ordered) \<and> (?finite \<longrightarrow> ?consistent \<and> ?monotone)")
proof -
  let ?k = "safeSort options"
  let ?cmp = "sortComparator H (safeSort options) (nullish (sortOrder options) Asc)"
  have rows_eq: "sortRows H options rows = sort_js H ?cmp rows"
    by (simp add: sortRows_def)
  have c1: ?numbers
    by (simp add: sortComparator_numbers)
  have c2: ?strings
    by (simp add: sortComparator_strings)
  have st: ?stable if con: ?consistent
  proof -
    have ins: "filter (\<lambda>r. r ?k = v) (insertionSort ?cmp rows) = filter (\<lambda>r. r ?k = v) rows"
    proof (rule filter_insertionSort [where S = "set rows"])
      fix p q
      assume p: "p \<in> set rows" and "q \<in> set rows" and pv: "p ?k = v" and qv: "q ?k = v"
      from pv qv have "q ?k = p ?k" by simp
      then have "?cmp p q = ?cmp p p"
        by (rule sortComparator_same_value)
      moreover have "isZero (?cmp p p)" by (rule consistentOnD(2) [OF con p p p])
      ultimately show "\<not> positive (?cmp p q)" by (simp add: sign_exclusive)
    qed simp
    from sort_js_consistent [OF con, of H] show ?thesis
    proof
      assume "sort_js H ?cmp rows = rows \<and> length rows < 2"
      then show ?thesis by (simp add: rows_eq)
    next
      assume "sort_js H ?cmp rows = insertionSort ?cmp rows"
      with ins show ?thesis by (simp add: rows_eq)
    qed
  qed
  have srt: ?ordered if con: ?consistent
  proof -
    have ins: "sorted_wrt (\<lambda>a b. \<not> positive (?cmp a b)) (insertionSort ?cmp rows)"
    proof (rule sorted_insertionSort [where S = "set rows"])
      fix p q assume "p \<in> set rows" "q \<in> set rows" "positive (?cmp p q)"
      then show "\<not> positive (?cmp q p)" by (rule consistent_antisym [OF con])
    next
      fix p q r
      assume "p \<in> set rows" "q \<in> set rows" "r \<in> set rows"
        "\<not> positive (?cmp p q)" "\<not> positive (?cmp q r)"
      then show "\<not> positive (?cmp p r)" by (rule consistent_trans [OF con])
    qed simp_all
    from sort_js_consistent [OF con, of H] show ?thesis
    proof
      assume s: "sort_js H ?cmp rows = rows \<and> length rows < 2"
      then have "sorted_wrt (\<lambda>a b. \<not> positive (?cmp a b)) rows"
        by (intro short_list_sorted) simp
      with s show ?thesis by (simp add: rows_eq)
    next
      assume "sort_js H ?cmp rows = insertionSort ?cmp rows"
      with ins show ?thesis by (simp add: rows_eq)
    qed
  qed
  have con: ?consistent if fin: ?finite
    by (rule finite_numbers_consistent [OF fin])
  have mono: ?monotone if fin: ?finite
  proof -
    let ?R = "\<lambda>a b. \<exists>x y. a ?k = Num (Fin x) \<and> b ?k = Num (Fin y)
                          \<and> (if nullish (sortOrder options) Asc = Asc then x \<le> y else y \<le> x)"
    have ins: "sorted_wrt ?R (insertionSort ?cmp rows)"
    proof (rule sorted_insertionSort [where S = "set rows"])
      fix a b assume "a \<in> set rows" "b \<in> set rows"
      with fin obtain x y
        where xy: "a ?k = Num (Fin x)" "b ?k = Num (Fin y)"
        by blast
      have val: "?cmp a b = (if nullish (sortOrder options) Asc = Asc then Fin (x - y)
                             else Fin (y - x))"
        using xy by (simp add: sortComparator_def)
      {
        assume "\<not> positive (?cmp a b)"
        with xy val show "?R a b" by (simp split: if_splits)
      }
      {
        assume "positive (?cmp a b)"
        with xy val show "?R b a" by (simp split: if_splits)
      }
    next
      fix a b c
      assume "?R a b" and "?R b c"
      then obtain x y y' z where "a ?k = Num (Fin x)" "b ?k = Num (Fin y)"
        "b ?k = Num (Fin y')" "c ?k = Num (Fin z)"
        "if nullish (sortOrder options) Asc = Asc then x \<le> y else y \<le> x"
        "if nullish (sortOrder options) Asc = Asc then y' \<le> z else z \<le> y'"
        by blast
      then show "?R a c" by (cases "nullish (sortOrder options) Asc = Asc") auto
    qed simp
    from sort_js_consistent [OF con [OF fin], of H] show ?thesis
    proof
      assume s: "sort_js H ?cmp rows = rows \<and> length rows < 2"
      then have "sorted_wrt ?R rows"
        by (intro short_list_sorted) simp
      with s show ?thesis by (simp add: rows_eq)
    next
      assume "sort_js H ?cmp rows = insertionSort ?cmp rows"
      with ins show ?thesis by (simp add: rows_eq)
    qed
  qed
  from c1 c2 st srt con mono show ?thesis by blast
qed

lemma compareCU_same: "compareCU s s = 0"
  by (induction s) auto

lemma byPrice_column:
  "safeSort byPrice = js ''resource_price_per_unit'' \<and> nullish (sortOrder byPrice) Asc = Asc"
  by code_simp

lemma nanRows_inconsistent:
  "\<not> consistentOn (sortComparator exampleHost (js ''resource_price_per_unit'') Asc) nanRows"
proof
  assume "consistentOn (sortComparator exampleHost (js ''resource_price_per_unit'') Asc) nanRows"
  then have "sortComparator exampleHost (js ''resource_price_per_unit'') Asc
      (exampleRow ''R0'' (Num (Fin 2))) (exampleRow ''R2'' (Num NaN)) \<noteq> NaN"
    by (rule consistentOnD(1) [where c = "exampleRow ''R0'' (Num (Fin 2))"])
       (simp_all add: nanRows_def)
  then show False
    by (simp add: sortComparator_def exampleRow_def js_def)
qed

lemma nanRows_engine_order:
  "map (\<lambda>r. (r (js ''rate_code''), r (js ''resource_price_per_unit'')))
     (shortArraySort (sortComparator exampleHost (js ''resource_price_per_unit'') Asc) nanRows)
     = [(Str (js ''R1''), Num (Fin 1)), (Str (js ''R3''), Num (Fin 1)),
        (Str (js ''R4''), Num (Fin 1)), (Str (js ''R6''), Num (Fin 1)),
        (Str (js ''R0''), Num (Fin 2)), (Str (js ''R2''), Num NaN),
        (Str (js ''R5''), Num (Fin 1))]"
  by code_simp

lemma nanRows_sorted:
  "map (\<lambda>r. (r (js ''rate_code''), r (js ''resource_price_per_unit'')))
     (sortRows exampleHost byPrice nanRows)
     = [(Str (js ''R1''), Num (Fin 1)), (Str (js ''R3''), Num (Fin 1)),
        (Str (js ''R4''), Num (Fin 1)), (Str (js ''R6''), Num (Fin 1)),
        (Str (js ''R0''), Num (Fin 2)), (Str (js ''R2''), Num NaN),
        (Str (js ''R5''), Num (Fin 1))]"
proof -
  have "length nanRows = 7"
    by (simp add: nanRows_def)
  then have "sortRows exampleHost byPrice nanRows
     = shortArraySort (sortComparator exampleHost (js ''resource_price_per_unit'') Asc) nanRows"
    using nanRows_inconsistent
    by (simp add: sortRows_def sort_js_def byPrice_column exampleHost_def)
  then show ?thesis
    by (simp only: nanRows_engine_order)
qed

lemma filter_by_value:
  "map f (filter (\<lambda>r. g r = v) xs)
     = map fst (filter (\<lambda>p. snd p = v) (map (\<lambda>r. (f r, g r)) xs))"
  by (induction xs) simp_all

text \<open>
  Prices 5, 3, 5 sorted by price: the two rows priced 5 stay in their order, A before C.
  Codes b, a, b sorted by code: the two rows with the code b stay in their order.
\<close>

theorem C9_sort_stable_witness:
  "list_all (\<lambda>r. \<exists>x. r (safeSort byPrice) = Num (Fin x)) pricedRows
   \<and> consistentOn (sortComparator exampleHost (safeSort byPrice) (nullish (sortOrder byPrice) Asc))
        pricedRows
   \<and> sortComparator exampleHost (js ''resource_price_per_unit'') Asc
        (exampleRow ''A'' (Num (Fin 5))) (exampleRow ''B'' (Num (Fin 3))) = Fin 2
   \<and> sortComparator exampleHost (js ''rate_code'') Asc
        (exampleRow ''A'' (Num (Fin 5))) (exampleRow ''B'' (Num (Fin 3))) = Fin (- 1)
   \<and> filter (\<lambda>r. r (safeSort byPrice) = Num (Fin 5)) (sortRows exampleHost byPrice pricedRows)
       = [exampleRow ''A'' (Num (Fin 5)), exampleRow ''C'' (Num (Fin 5))]
   \<and> sorted_wrt (\<lambda>a b. \<exists>x y. a (safeSort byPrice) = Num (Fin x)
                          \<and> b (safeSort byPrice) = Num (Fin y)
                          \<and> (if nullish (sortOrder byPrice) Asc = Asc then x \<le> y else y \<le> x))
        (sortRows exampleHost byPrice pricedRows)
   \<and> consistentOn
        (sortComparator exampleHost (safeSort defaultOptions) (nullish (sortOrder defaultOptions) Asc))
        codedRows
   \<and> filter (\<lambda>r. r (safeSort defaultOptions) = Str (js ''b''))
        (sortRows exampleHost defaultOptions codedRows)
       = [exampleRow ''b'' (Num (Fin 1)), exampleRow ''b'' (Num (Fin 3))]
   \<and> sorted_wrt (\<lambda>a b. \<not> positive
          (sortComparator exampleHost (safeSort defaultOptions)
             (nullish (sortOrder defaultOptions) Asc) a b))
        (sortRows exampleHost defaultOptions codedRows)
   \<and> map (\<lambda>r. r (js ''rate_code'')) (sortRows exampleHost defaultOptions codedRows)
       = [Str (js ''a''), Str (js ''b''), Str (js ''b'')]"
proof -
  have col: "safeSort byPrice = js ''resource_price_per_unit''"
    by code_simp
  have dcol: "safeSort defaultOptions = js ''rate_code''"
    by code_simp
  have pa: "exampleRow c (Num n) (js ''resource_price_per_unit'') = Num n" for c n
    by (simp add: exampleRow_def js_def)
  have ca: "exampleRow c p (js ''rate_code'') = Str (js c)" for c p
    by (simp add: exampleRow_def)
  have fin: "\<forall>r \<in> set pricedRows. \<exists>x. r (safeSort byPrice) = Num (Fin x)"
    by (simp add: col pricedRows_def pa)
  have lc: "localeCompare exampleHost (js ''A'') (js ''B'') = - 1"
    by (simp add: exampleHost_def js_def)
  have flt: "filter (\<lambda>r. r (safeSort byPrice) = Num (Fin 5)) pricedRows
               = [exampleRow ''A'' (Num (Fin 5)), exampleRow ''C'' (Num (Fin 5))]"
    by (simp add: col pricedRows_def pa)
  have ab: "js ''a'' \<noteq> js ''b''"
    by (simp add: js_def)
  have con: "consistentOn
        (sortComparator exampleHost (safeSort defaultOptions) (nullish (sortOrder defaultOptions) Asc))
        codedRows"
    by code_simp
  have dflt: "filter (\<lambda>r. r (safeSort defaultOptions) = Str (js ''b'')) codedRows
       = [exampleRow ''b'' (Num (Fin 1)), exampleRow ''b'' (Num (Fin 3))]"
    by (simp add: dcol codedRows_def ca ab)
  have res: "map (\<lambda>r. r (js ''rate_code'')) (sortRows exampleHost defaultOptions codedRows)
       = [Str (js ''a''), Str (js ''b''), Str (js ''b'')]"
    by code_simp
  note n = C9_sort_stable [of "exampleRow ''A'' (Num (Fin 5))" "js ''resource_price_per_unit''"
      "Fin 5" "exampleRow ''B'' (Num (Fin 3))" "Fin 3" exampleHost byPrice pricedRows "Num (Fin 5)"]
  note s = C9_sort_stable [of "exampleRow ''A'' (Num (Fin 5))" "js ''rate_code''"
      "Fin 5" "exampleRow ''B'' (Num (Fin 3))" "Fin 3" exampleHost defaultOptions codedRows
      "Str (js ''b'')"]
  from fin have fin': "list_all (\<lambda>r. \<exists>x. r (safeSort byPrice) = Num (Fin x)) pricedRows"
    by (simp add: list_all_iff)
  note finite = n [THEN conjunct2, THEN conjunct2, THEN conjunct2, THEN mp, OF fin]
  note n1 = finite [THEN conjunct1]
  note n2 = finite [THEN conjunct2]
  note stable = n [THEN conjunct2, THEN conjunct2, THEN conjunct1, THEN mp, OF n1]
  from stable [THEN conjunct1] flt
  have n3: "filter (\<lambda>r. r (safeSort byPrice) = Num (Fin 5)) (sortRows exampleHost byPrice pricedRows)
       = [exampleRow ''A'' (Num (Fin 5)), exampleRow ''C'' (Num (Fin 5))]"
    by (rule trans)
  have "sortComparator exampleHost (js ''resource_price_per_unit'') Asc
        (exampleRow ''A'' (Num (Fin 5))) (exampleRow ''B'' (Num (Fin 3))) = js_sub (Fin 5) (Fin 3)"
    by (rule n [THEN conjunct1, THEN mp, THEN conjunct1]) (simp add: pa)
  then have n4: "sortComparator exampleHost (js ''resource_price_per_unit'') Asc
        (exampleRow ''A'' (Num (Fin 5))) (exampleRow ''B'' (Num (Fin 3))) = Fin 2"
    by simp
  have "sortComparator exampleHost (js ''rate_code'') Asc
        (exampleRow ''A'' (Num (Fin 5))) (exampleRow ''B'' (Num (Fin 3)))
      = Fin (real_of_int (localeCompare exampleHost
            (safeString exampleHost (exampleRow ''A'' (Num (Fin 5)) (js ''rate_code'')))
            (safeString exampleHost (exampleRow ''B'' (Num (Fin 3)) (js ''rate_code'')))))"
    by (rule s [THEN conjunct2, THEN conjunct1, THEN mp, THEN conjunct1]) (simp add: ca)
  then have s1: "sortComparator exampleHost (js ''rate_code'') Asc
        (exampleRow ''A'' (Num (Fin 5))) (exampleRow ''B'' (Num (Fin 3))) = Fin (- 1)"
    by (simp add: ca lc)
  note sstable = s [THEN conjunct2, THEN conjunct2, THEN conjunct1, THEN mp, OF con]
  from sstable [THEN conjunct1] dflt
  have s2: "filter (\<lambda>r. r (safeSort defaultOptions) = Str (js ''b''))
        (sortRows exampleHost defaultOptions codedRows)
       = [exampleRow ''b'' (Num (Fin 1)), exampleRow ''b'' (Num (Fin 3))]"
    by (rule trans)
  note s3 = sstable [THEN conjunct2]
  from fin' n1 n4 s1 n3 n2 con s2 s3 res show ?thesis
    by (intro conjI)
qed

text \<open>
  Prices 2, 1, \<open>NaN\<close>, 1, 1, 1, 1 sorted by price, in an engine that sorts as V8 does:
  the rows R5 and R6, both priced 1, come out as R6 before R5.
\<close>

theorem C9_nan_price_counterexample:
  "(\<forall>s. localeCompare exampleHost s s = 0)
   \<and> map (\<lambda>r. r (js ''rate_code''))
        (filter (\<lambda>r. r (safeSort byPrice) = Num (Fin 1)) nanRows)
       = [Str (js ''R1''), Str (js ''R3''), Str (js ''R4''), Str (js ''R5''), Str (js ''R6'')]
   \<and> map (\<lambda>r. r (js ''rate_code''))
        (filter (\<lambda>r. r (safeSort byPrice) = Num (Fin 1)) (sortRows exampleHost byPrice nanRows))
       = [Str (js ''R1''), Str (js ''R3''), Str (js ''R4''), Str (js ''R6''), Str (js ''R5'')]
   \<and> map (\<lambda>r. r (js ''rate_code'')) (sortRows exampleHost byPrice nanRows)
       = [Str (js ''R1''), Str (js ''R3''), Str (js ''R4''), Str (js ''R6''), Str (js ''R0''),
          Str (js ''R2''), Str (js ''R5'')]
   \<and> filter (\<lambda>r. r (safeSort byPrice) = Num (Fin 1)) (sortRows exampleHost byPrice nanRows)
       \<noteq> filter (\<lambda>r. r (safeSort byPrice) = Num (Fin 1)) nanRows"
proof -
  let ?code = "\<lambda>r :: row. r (js ''rate_code'')"
  let ?priced = "\<lambda>r :: row. r (safeSort byPrice) = Num (Fin 1)"
  have col: "safeSort byPrice = js ''resource_price_per_unit''"
    by (simp add: byPrice_column)
  have refl: "\<forall>s. localeCompare exampleHost s s = 0"
    by (simp add: exampleHost_def compareCU_same)
  have before: "map ?code (filter ?priced nanRows)
       = [Str (js ''R1''), Str (js ''R3''), Str (js ''R4''), Str (js ''R5''), Str (js ''R6'')]"
    by (simp add: col nanRows_def exampleRow_def js_def)
  have "map ?code (filter (\<lambda>r. r (js ''resource_price_per_unit'') = Num (Fin 1))
            (sortRows exampleHost byPrice nanRows))
       = map fst (filter (\<lambda>p. snd p = Num (Fin 1))
           (map (\<lambda>r. (r (js ''rate_code''), r (js ''resource_price_per_unit'')))
              (sortRows exampleHost byPrice nanRows)))"
    by (rule filter_by_value)
  then have after: "map ?code (filter ?priced (sortRows exampleHost byPrice nanRows))
       = [Str (js ''R1''), Str (js ''R3''), Str (js ''R4''), Str (js ''R6''), Str (js ''R5'')]"
    by (simp only: nanRows_sorted col) simp
  have "map ?code (sortRows exampleHost byPrice nanRows)
       = map fst (map (\<lambda>r. (r (js ''rate_code''), r (js ''resource_price_per_unit'')))
           (sortRows exampleHost byPrice nanRows))"
    by (simp add: comp_def)
  then have whole: "map ?code (sortRows exampleHost byPrice nanRows)
       = [Str (js ''R1''), Str (js ''R3''), Str (js ''R4''), Str (js ''R6''), Str (js ''R0''),
          Str (js ''R2''), Str (js ''R5'')]"
    by (simp only: nanRows_sorted) simp
  have differ: "filter ?priced (sortRows exampleHost byPrice nanRows) \<noteq> filter ?priced nanRows"
  proof
    assume "filter ?priced (sortRows exampleHost byPrice nanRows) = filter ?priced nanRows"
    then have "map ?code (filter ?priced (sortRows exampleHost byPrice nanRows))
                 = map ?code (filter ?priced nanRows)"
      by (rule arg_cong)
    then have "[Str (js ''R1''), Str (js ''R3''), Str (js ''R4''), Str (js ''R6''), Str (js ''R5'')]
       = [Str (js ''R1''), Str (js ''R3''), Str (js ''R4''), Str (js ''R5''), Str (js ''R6'')]"
      by (simp only: before after)
    then show False
      by (simp add: js_def)
  qed
  from refl before after whole differ show ?thesis
    by (intro conjI)
qed


section \<open>The parser\<close>

lemma sameCU_refl: "sameCU p p"
  by (simp add: sameCU_def)

lemma matchWord_lit:
  "startsWith s (js w) \<Longrightarrow> matchWord (lit w) s = Some (length w)"
proof (induction w arbitrary: s)
  case Nil
  show ?case by (simp add: lit_def)
next
  case (Cons c w)
  then obtain x xs where s: "s = x # xs" "x = of_char c" "startsWith xs (js w)"
    by (cases s) (auto simp: js_def)
  with Cons.IH [of xs] show ?case
    by (simp add: lit_def sameCU_refl)
qed

lemma matchAlt_member:
  "w \<in> set pat \<Longrightarrow> matchWord w s = Some n \<Longrightarrow> \<exists>m. matchAlt pat s = Some m"
  by (induction "pat") (auto split: option.splits)

lemma regexTest_includes:
  assumes "lit w \<in> set pat"
  shows "includes_js text (js w) \<Longrightarrow> regexTest pat text"
proof (induction "text")
  case Nil
  then have "startsWith [] (js w)" by simp
  from matchAlt_member [OF assms matchWord_lit [OF this]] show ?case by auto
next
  case (Cons c cs)
  show ?case
  proof (cases "startsWith (c # cs) (js w)")
    case True
    from matchAlt_member [OF assms matchWord_lit [OF True]] show ?thesis by auto
  next
    case False
    with Cons show ?thesis by (auto split: option.splits)
  qed
qed

lemma detect_gte:
  assumes "includes_js text (js ''>='')"
  shows "detectOperator text = Some OpGte"
proof -
  have "regexTest [lit ''>='', [Lit 0x2265], lit ''mayor o igual'', lit ''greater than or equal'']
          text"
    by (rule regexTest_includes [OF _ assms]) simp
  then show ?thesis
    by (simp add: detectOperator_def operatorPatterns_def)
qed

lemma detect_lte:
  assumes "includes_js text (js ''<='')"
  shows "detectOperator text \<in> {Some OpGte, Some OpLte}"
proof -
  have "regexTest [lit ''<='', [Lit 0x2264], lit ''menor o igual'', lit ''less than or equal'']
          text"
    by (rule regexTest_includes [OF _ assms]) simp
  then show ?thesis
    by (simp add: detectOperator_def operatorPatterns_def)
qed

lemma detect_neq:
  assumes "includes_js text (js ''!='')"
  shows "detectOperator text \<in> {Some OpGte, Some OpLte, Some OpNeq}"
proof -
  have "regexTest [lit ''!='', lit ''<>'', [Lit 0x2260], lit ''no es'', lit ''not equal'',
        lit ''diferente''] text"
    by (rule regexTest_includes [OF _ assms]) simp
  then show ?thesis
    by (simp add: detectOperator_def operatorPatterns_def)
qed


lemma parseSegment_filter:
  assumes "resolveField s = Some fld" and "extractValue s = Some v"
  shows "\<exists>f. parseSegment H clock (fs, us, n) s = (fs @ [f], us, Suc n)
           \<and> rawInput f = s \<and> field f = fld \<and> value_f f = v
           \<and> operator f = (case detectOperator s of Some op \<Rightarrow> op | None \<Rightarrow> OpContains)
           \<and> unit_f f = detectUnit s
           \<and> displayLabel f = createDisplayLabel H fld (operator f) v (unit_f f)"
  using assms by (simp add: parseSegment_def generateFilterId_def Let_def)

lemma parseSegment_other:
  assumes "resolveField s = None \<or> extractValue s = None"
  shows "parseSegment H clock (fs, us, n) s = (fs, if length s > 2 then us @ [s] else us, n)"
  using assms by (auto simp: parseSegment_def Let_def split: option.splits)

lemma foldl_parseSegment:
  "foldl (parseSegment H clock) (fs, us, n) segs = (fs', us', n') \<Longrightarrow>
   map rawInput fs' =
     map rawInput fs @ filter (\<lambda>s. resolveField s \<noteq> None \<and> extractValue s \<noteq> None) segs
   \<and> us' = us @ filter (\<lambda>s. \<not> (resolveField s \<noteq> None \<and> extractValue s \<noteq> None) \<and> length s > 2) segs
   \<and> n' = n + length (filter (\<lambda>s. resolveField s \<noteq> None \<and> extractValue s \<noteq> None) segs)
   \<and> (\<forall>f \<in> set fs'. f \<in> set fs \<or>
         (resolveField (rawInput f) = Some (field f) \<and> extractValue (rawInput f) = Some (value_f f)
          \<and> operator f = (case detectOperator (rawInput f) of Some op \<Rightarrow> op | None \<Rightarrow> OpContains)
          \<and> unit_f f = detectUnit (rawInput f)
          \<and> displayLabel f = createDisplayLabel H (field f) (operator f) (value_f f) (unit_f f)))"
proof (induction segs arbitrary: fs us n)
  case Nil
  then show ?case by simp
next
  case (Cons s segs)
  show ?case
  proof (cases "resolveField s \<noteq> None \<and> extractValue s \<noteq> None")
    case True
    then obtain fld v where fv: "resolveField s = Some fld" "extractValue s = Some v" by auto
    from parseSegment_filter [OF fv, of H clock fs us n] obtain f where
      step: "parseSegment H clock (fs, us, n) s = (fs @ [f], us, Suc n)"
      and f: "rawInput f = s" "field f = fld" "value_f f = v"
        "operator f = (case detectOperator s of Some op \<Rightarrow> op | None \<Rightarrow> OpContains)"
        "unit_f f = detectUnit s"
        "displayLabel f = createDisplayLabel H fld (operator f) v (unit_f f)"
      by blast
    from Cons.prems step
    have "foldl (parseSegment H clock) (fs @ [f], us, Suc n) segs = (fs', us', n')" by simp
    from Cons.IH [OF this] True fv f show ?thesis by auto
  next
    case False
    then have "resolveField s = None \<or> extractValue s = None" by auto
    from parseSegment_other [OF this, of H clock fs us n] Cons.prems
    have "foldl (parseSegment H clock) (fs, if length s > 2 then us @ [s] else us, n) segs
            = (fs', us', n')" by simp
    from Cons.IH [OF this] False show ?thesis by auto
  qed
qed

text \<open>
  Claim C6. \<open>parseNaturalLanguageQuery\<close> has a result for every query (no step of it can
  throw, and the model is a total function). The filters are made from exactly the
  segments that resolve to a field and a value, in their order, each filter recording
  the field, value and unit of its segment; the unrecognized list is exactly the other
  segments longer than two code units, in their order; \<open>success\<close> tells whether there is
  a filter. A segment that cannot be parsed therefore never keeps another from giving
  its filter.
\<close>

theorem C6_parse_total:
  "map rawInput (filters_r (fst (parseNaturalLanguageQuery H clock n q)))
     = filter (\<lambda>s. resolveField s \<noteq> None \<and> extractValue s \<noteq> None) (segments q)
   \<and> unrecognized (fst (parseNaturalLanguageQuery H clock n q))
     = filter (\<lambda>s. \<not> (resolveField s \<noteq> None \<and> extractValue s \<noteq> None) \<and> length s > 2)
         (segments q)
   \<and> success (fst (parseNaturalLanguageQuery H clock n q))
     = (filters_r (fst (parseNaturalLanguageQuery H clock n q)) \<noteq> [])
   \<and> (\<forall>f \<in> set (filters_r (fst (parseNaturalLanguageQuery H clock n q))).
         resolveField (rawInput f) = Some (field f)
         \<and> extractValue (rawInput f) = Some (value_f f)
         \<and> unit_f f = detectUnit (rawInput f)
         \<and> displayLabel f = createDisplayLabel H (field f) (operator f) (value_f f) (unit_f f))
   \<and> snd (parseNaturalLanguageQuery H clock n q)
     = n + length (filters_r (fst (parseNaturalLanguageQuery H clock n q)))"
proof -
  obtain fs us k where run: "foldl (parseSegment H clock) ([], [], n) (segments q) = (fs, us, k)"
    by (cases "foldl (parseSegment H clock) ([], [], n) (segments q)") auto
  then have res: "parseNaturalLanguageQuery H clock n q
                    = (\<lparr>success = length fs > 0, filters_r = fs, unrecognized = us\<rparr>, k)"
    by (simp add: parseNaturalLanguageQuery_def)
  from foldl_parseSegment [OF run] have
    a: "map rawInput fs = filter (\<lambda>s. resolveField s \<noteq> None \<and> extractValue s \<noteq> None) (segments q)"
    and b: "us = filter (\<lambda>s. \<not> (resolveField s \<noteq> None \<and> extractValue s \<noteq> None) \<and> length s > 2)
                   (segments q)"
    and c: "k = n + length (filter (\<lambda>s. resolveField s \<noteq> None \<and> extractValue s \<noteq> None) (segments q))"
    and d: "\<forall>f \<in> set fs. resolveField (rawInput f) = Some (field f)
         \<and> extractValue (rawInput f) = Some (value_f f)
         \<and> unit_f f = detectUnit (rawInput f)
         \<and> displayLabel f = createDisplayLabel H (field f) (operator f) (value_f f) (unit_f f)"
    by simp_all
  from a have "length fs
      = length (filter (\<lambda>s. resolveField s \<noteq> None \<and> extractValue s \<noteq> None) (segments q))"
    by (metis length_map)
  with c have e: "k = n + length fs" by simp
  from a b d e show ?thesis unfolding res by simp
qed


text \<open>One valid segment, one unrecognized one, and one too short to report.\<close>

theorem C6_parse_total_witness:
  "map rawInput (filters_r (fst (parseNaturalLanguageQuery exampleHost exampleClock 0
       (js ''cost > 5, qwrt, ab'')))) = [js ''cost > 5'']
   \<and> unrecognized (fst (parseNaturalLanguageQuery exampleHost exampleClock 0
       (js ''cost > 5, qwrt, ab''))) = [js ''qwrt'']
   \<and> success (fst (parseNaturalLanguageQuery exampleHost exampleClock 0 (js ''cost > 5, qwrt, ab'')))
   \<and> list_all (\<lambda>f. resolveField (rawInput f) = Some (field f)
         \<and> extractValue (rawInput f) = Some (value_f f)
         \<and> unit_f f = detectUnit (rawInput f)
         \<and> displayLabel f = createDisplayLabel exampleHost (field f) (operator f) (value_f f)
                               (unit_f f))
       (filters_r (fst (parseNaturalLanguageQuery exampleHost exampleClock 0
                (js ''cost > 5, qwrt, ab''))))
   \<and> snd (parseNaturalLanguageQuery exampleHost exampleClock 0 (js ''cost > 5, qwrt, ab'')) = 1"
proof -
  have ok: "filter (\<lambda>s. resolveField s \<noteq> None \<and> extractValue s \<noteq> None)
              (segments (js ''cost > 5, qwrt, ab'')) = [js ''cost > 5'']"
    by code_simp
  have bad: "filter (\<lambda>s. \<not> (resolveField s \<noteq> None \<and> extractValue s \<noteq> None) \<and> length s > 2)
              (segments (js ''cost > 5, qwrt, ab'')) = [js ''qwrt'']"
    by code_simp
  note t = C6_parse_total [of exampleHost exampleClock 0 "js ''cost > 5, qwrt, ab''",
      unfolded ok bad]
  from t have "length (map rawInput (filters_r (fst (parseNaturalLanguageQuery exampleHost
                 exampleClock 0 (js ''cost > 5, qwrt, ab''))))) = 1"
    by simp
  then have len: "length (filters_r (fst (parseNaturalLanguageQuery exampleHost
                 exampleClock 0 (js ''cost > 5, qwrt, ab'')))) = 1"
    by simp
  then have ne: "filters_r (fst (parseNaturalLanguageQuery exampleHost
                 exampleClock 0 (js ''cost > 5, qwrt, ab''))) \<noteq> []"
    by auto
  from t len ne show ?thesis by (simp add: list_all_iff)
qed

text \<open>
  Claim C4. The query \<open>materiales > 500\<euro>, area < 50m2\<close> parses into two filters,
  material \<open>>\<close> 500 in EUR and area \<open><\<close> 50 in square metres, and nothing
  unrecognized.
\<close>

theorem C4_example_query:
  "map (\<lambda>f. (field f, operator f, value_f f, unit_f f))
       (filters_r (fst (parseNaturalLanguageQuery H clock n exampleQuery)))
     = [(js ''material'', OpGt, VNum (Fin 500), EUR), (js ''area'', OpLt, VNum (Fin 50), Sqm)]
   \<and> unrecognized (fst (parseNaturalLanguageQuery H clock n exampleQuery)) = []
   \<and> success (fst (parseNaturalLanguageQuery H clock n exampleQuery))"
  by code_simp

lemma range_needs_number:
  "rangeMatch s = Some m \<Longrightarrow> \<exists>k. numberMatch s = Some k"
proof (induction s)
  case Nil
  then show ?case by simp
next
  case (Cons c cs)
  show ?case
  proof (cases "matchNumber (c # cs)")
    case (Some a)
    then show ?thesis by (cases a) auto
  next
    case None
    then have "rangeAt (c # cs) = None" by (simp add: rangeAt_def)
    with Cons None show ?thesis by simp
  qed
qed

text \<open>
  Claim C5. \<open>extractValue\<close> returns the pair of a range occurrence when the text has
  one, although the text then has a single-number occurrence as well; only without a
  range does it return the single number; only without any number does it return the
  cleaned text (or \<open>null\<close> when nothing is left). On \<open>area 100-500\<close> the value is the
  pair 100, 500, while the single-number pattern alone would give 100.
\<close>

theorem C5_range_before_number:
  "(rangeMatch text = Some (m1, m2)
      \<longrightarrow> extractValue text = Some (VRange (parseFloat m1) (parseFloat m2)))
   \<and> (rangeMatch text \<noteq> None \<longrightarrow> numberMatch text \<noteq> None)
   \<and> (rangeMatch text = None \<and> numberMatch text = Some m
      \<longrightarrow> extractValue text = Some (VNum (parseFloat m)))
   \<and> (rangeMatch text = None \<and> numberMatch text = None
      \<longrightarrow> extractValue text
            = (if cleanText text = [] then None else Some (VStr (cleanText text))))
   \<and> extractValue (js ''area 100-500'') = Some (VRange (Fin 100) (Fin 500))
   \<and> numberMatch (js ''area 100-500'') = Some (js ''100'', [])"
proof -
  have a: "extractValue (js ''area 100-500'') = Some (VRange (Fin 100) (Fin 500))"
    by code_simp
  have b: "numberMatch (js ''area 100-500'') = Some (js ''100'', [])"
    by code_simp
  have c: "rangeMatch text \<noteq> None \<longrightarrow> numberMatch text \<noteq> None"
    using range_needs_number [of "text"] by auto
  from a b c show ?thesis
    by (auto simp: extractValue_def Let_def)
qed

text \<open>A text with a range, one with a single number, and one with no number.\<close>

theorem C5_range_before_number_witness:
  "rangeMatch (js ''area 100-500'') = Some ((js ''100'', []), (js ''500'', []))
   \<and> extractValue (js ''area 100-500'') = Some (VRange (Fin 100) (Fin 500))
   \<and> numberMatch (js ''area 100-500'') \<noteq> None
   \<and> rangeMatch (js ''area 100'') = None \<and> numberMatch (js ''area 100'') = Some (js ''100'', [])
   \<and> extractValue (js ''area 100'') = Some (VNum (Fin 100))
   \<and> rangeMatch (js ''madera'') = None \<and> numberMatch (js ''madera'') = None
   \<and> extractValue (js ''madera'') = Some (VStr (js ''mr''))"
proof -
  have r1: "rangeMatch (js ''area 100-500'') = Some ((js ''100'', []), (js ''500'', []))"
    by code_simp
  have r2: "rangeMatch (js ''area 100'') = None" by code_simp
  have n2: "numberMatch (js ''area 100'') = Some (js ''100'', [])" by code_simp
  have r3: "rangeMatch (js ''madera'') = None" by code_simp
  have n3: "numberMatch (js ''madera'') = None" by code_simp
  have c3: "cleanText (js ''madera'') = js ''mr''" by code_simp
  have p: "parseFloat (js ''100'', []) = Fin 100" by code_simp
  have j: "js ''mr'' \<noteq> []" by (simp add: js_def)
  note t1 = C5_range_before_number [of "js ''area 100-500''" "(js ''100'', [])" "(js ''500'', [])"]
  note t2 = C5_range_before_number [of "js ''area 100''" _ _ "(js ''100'', [])"]
  note t3 = C5_range_before_number [of "js ''madera''"]
  from t1 t2 t3 r1 r2 n2 r3 n3 c3 p j show ?thesis by simp
qed

text \<open>
  Claim C3. \<open>detectOperator\<close> gives \<open>gte\<close> on \<open>cost >= 100\<close> and \<open>neq\<close> on
  \<open>cost != 100\<close>. In general a text containing \<open>>=\<close> is never classified by the
  one-character patterns behind it (it is \<open>gte\<close>); one containing \<open><=\<close> is \<open>lte\<close>
  unless an earlier pattern applies, and one containing \<open>!=\<close> is \<open>neq\<close> unless an
  earlier pattern applies. The operator of a parsed filter is the detected one, and
  \<open>contains\<close> when none is detected.
\<close>

theorem C3_operator_order:
  "detectOperator (js ''cost >= 100'') = Some OpGte
   \<and> detectOperator (js ''cost != 100'') = Some OpNeq
   \<and> (includes_js text (js ''>='') \<longrightarrow> detectOperator text = Some OpGte)
   \<and> (includes_js text (js ''<='') \<longrightarrow> detectOperator text \<in> {Some OpGte, Some OpLte})
   \<and> (includes_js text (js ''!='')
        \<longrightarrow> detectOperator text \<in> {Some OpGte, Some OpLte, Some OpNeq})
   \<and> (\<forall>f \<in> set (filters_r (fst (parseNaturalLanguageQuery H clock n q))).
         operator f = (case detectOperator (rawInput f) of Some op \<Rightarrow> op | None \<Rightarrow> OpContains))"
proof -
  have a: "detectOperator (js ''cost >= 100'') = Some OpGte" by code_simp
  have b: "detectOperator (js ''cost != 100'') = Some OpNeq" by code_simp
  obtain fs us k where run: "foldl (parseSegment H clock) ([], [], n) (segments q) = (fs, us, k)"
    by (cases "foldl (parseSegment H clock) ([], [], n) (segments q)") auto
  then have res: "filters_r (fst (parseNaturalLanguageQuery H clock n q)) = fs"
    by (simp add: parseNaturalLanguageQuery_def)
  from foldl_parseSegment [OF run]
  have c: "\<forall>f \<in> set fs.
         operator f = (case detectOperator (rawInput f) of Some op \<Rightarrow> op | None \<Rightarrow> OpContains)"
    by simp
  from a b c detect_gte [of "text"] detect_lte [of "text"] detect_neq [of "text"]
  show ?thesis unfolding res by blast
qed

text \<open>
  The three two-character operators, and a segment without operator: \<open>material 500\<close>.
\<close>

theorem C3_operator_order_witness:
  "includes_js (js ''cost >= 100'') (js ''>='')
   \<and> detectOperator (js ''cost >= 100'') = Some OpGte
   \<and> includes_js (js ''cost <= 100'') (js ''<='')
   \<and> detectOperator (js ''cost <= 100'') \<in> {Some OpGte, Some OpLte}
   \<and> includes_js (js ''cost != 100'') (js ''!='')
   \<and> detectOperator (js ''cost != 100'') \<in> {Some OpGte, Some OpLte, Some OpNeq}
   \<and> map rawInput (filters_r (fst (parseNaturalLanguageQuery exampleHost exampleClock 0
          (js ''material 500'')))) = [js ''material 500'']
   \<and> detectOperator (js ''material 500'') = None
   \<and> map operator (filters_r (fst (parseNaturalLanguageQuery exampleHost exampleClock 0
          (js ''material 500'')))) = [OpContains]"
proof -
  have i1: "includes_js (js ''cost >= 100'') (js ''>='')" by code_simp
  have i2: "includes_js (js ''cost <= 100'') (js ''<='')" by code_simp
  have i3: "includes_js (js ''cost != 100'') (js ''!='')" by code_simp
  have raw: "map rawInput (filters_r (fst (parseNaturalLanguageQuery exampleHost exampleClock 0
          (js ''material 500'')))) = [js ''material 500'']"
    by code_simp
  have none: "detectOperator (js ''material 500'') = None" by code_simp
  note t1 = C3_operator_order [of "js ''cost >= 100''" exampleHost exampleClock 0 "js ''material 500''"]
  note t2 = C3_operator_order [of "js ''cost <= 100''" exampleHost exampleClock 0 "js ''material 500''"]
  note t3 = C3_operator_order [of "js ''cost != 100''" exampleHost exampleClock 0 "js ''material 500''"]
  from raw obtain f where one: "filters_r (fst (parseNaturalLanguageQuery exampleHost exampleClock 0
          (js ''material 500''))) = [f]" and rf: "rawInput f = js ''material 500''"
    by (cases "filters_r (fst (parseNaturalLanguageQuery exampleHost exampleClock 0
          (js ''material 500'')))") auto
  from t1 one rf none have "operator f = OpContains" by simp
  with one have ops: "map operator (filters_r (fst (parseNaturalLanguageQuery exampleHost
          exampleClock 0 (js ''material 500'')))) = [OpContains]"
    by simp
  from i1 i2 i3 raw none ops t1 t2 t3 show ?thesis by simp
qed

end
